theory Spec2Isabelle
  imports Complex_Main "HOL-Library.Multiset"
begin

section \<open>Python values and failures\<close>

text \<open>
  Python floats are modelled as HOL reals: the rounding and the overflow of the arithmetic
  are not modelled. Of the float32 storage of the numpy state arrays the rounding of the
  heading of a \<open>KVLCC2\<close> is modelled (\<open>f32\<close> below), at every place where the sources
  write it; the other components of \<open>eta\<close> and \<open>nu\<close> are kept as the reals that are
  written. Every exception the modelled code can raise is a value of \<open>py_error\<close>; a
  fallible computation returns \<open>py_error + 'a\<close>.
\<close>

datatype py_error =
  AssertionError | TypeError | ValueError | ZeroDivisionError
  | NotImplementedError | UnboundLocalError | IndexError | AttributeError | RuntimeError

definition err_bind :: "py_error + 'a \<Rightarrow> ('a \<Rightarrow> py_error + 'b) \<Rightarrow> py_error + 'b" where
  "err_bind m f = (case m of Inl e \<Rightarrow> Inl e | Inr x \<Rightarrow> f x)"

definition py_div :: "real \<Rightarrow> real \<Rightarrow> py_error + real" where
  \<comment> \<open>\<open>a / b\<close>: a zero divisor is a fault of the computation.\<close>
  "py_div a b = (if b = 0 then Inl ZeroDivisionError else Inr (a / b))"

definition py_sqrt :: "real \<Rightarrow> py_error + real" where
  \<comment> \<open>\<open>math.sqrt\<close>: a negative argument raises ValueError (math domain error).\<close>
  "py_sqrt x = (if x < 0 then Inl ValueError else Inr (sqrt x))"

definition py_atan2 :: "real \<Rightarrow> real \<Rightarrow> real" where
  \<comment> \<open>\<open>math.atan2(y, x)\<close>, total, with values in \<open>(-pi, pi]\<close>; a zero argument is the
      float \<open>0.0\<close> (for \<open>-0.0\<close> see \<open>drift_angle\<close> below).\<close>
  "py_atan2 y x =
     (if 0 < x then arctan (y / x)
      else if x < 0 then (if 0 \<le> y then arctan (y / x) + pi else arctan (y / x) - pi)
      else if 0 < y then pi / 2
      else if y < 0 then - (pi / 2)
      else 0)"

definition np_clip :: "real \<Rightarrow> real \<Rightarrow> real \<Rightarrow> real" where
  \<comment> \<open>\<open>np.clip(x, lo, hi)\<close>\<close>
  "np_clip x lo hi = min (max x lo) hi"

subsection \<open>Storage in a float32 array\<close>

text \<open>
  Assigning a number to an element of an array of \<open>dtype=np.float32\<close> rounds it to the
  nearest number with a significand of 24 bits, a tie going to the even significand. The
  exponent of the unit in the last place is that of the binade of the number, and not
  below that of the subnormal numbers. Numbers beyond the float32 range, which are stored
  as infinities, are not modelled.
\<close>

definition round_half_even :: "real \<Rightarrow> int" where
  "round_half_even y =
     (let f = \<lfloor>y\<rfloor>; d = y - of_int f
      in if d < 1 / 2 then f
         else if 1 / 2 < d then f + 1
         else if even f then f else f + 1)"

definition f32 :: "real \<Rightarrow> real" where
  "f32 x =
     (if x = 0 then 0
      else let e = max \<lfloor>log 2 \<bar>x\<bar>\<rfloor> (- 126);
               ulp = 2 powr (of_int e - 23)
           in of_int (round_half_even (x / ulp)) * ulp)"

section \<open>Angle helpers of FossenFnc\<close>

definition dtr :: "real \<Rightarrow> real" where
  \<comment> \<open>Modelled from the spec: \<open>FossenFnc.dtr\<close> is not among the sources; degrees to radians.\<close>
  "dtr a = a * pi / 180"

definition rtd :: "real \<Rightarrow> real" where
  \<comment> \<open>Modelled from the spec: \<open>FossenFnc.rtd\<close> is not among the sources; radians to degrees.\<close>
  "rtd a = a * 180 / pi"

definition angle_to_2pi :: "real \<Rightarrow> real" where
  \<comment> \<open>Modelled from the spec: \<open>FossenFnc.angle_to_2pi\<close> is not among the sources; the spec
      says an angle is wrapped to \<open>[0, 2 pi)\<close>, that is reduced modulo a full turn.\<close>
  "angle_to_2pi a = a - 2 * pi * of_int \<lfloor>a / (2 * pi)\<rfloor>"

definition angle_to_pi :: "real \<Rightarrow> real" where
  \<comment> \<open>Modelled from the spec: \<open>FossenFnc.angle_to_pi\<close> is not among the sources; the spec
      says an angle is wrapped into \<open>(-pi, pi]\<close>, again modulo a full turn.\<close>
  "angle_to_pi a = a + 2 * pi * of_int \<lfloor>(pi - a) / (2 * pi)\<rfloor>"

text \<open>
  The remaining helpers of \<open>FossenFnc\<close> follow the convention visible in the sources
  that use them: an angle is measured clockwise from north, so a vector of length \<open>r\<close>
  at angle \<open>a\<close> has the east component \<open>r sin a\<close> (called x) and the north component
  \<open>r cos a\<close> (called y).
\<close>

definition ED :: "real \<Rightarrow> real \<Rightarrow> real \<Rightarrow> real \<Rightarrow> bool \<Rightarrow> real" where
  \<comment> \<open>Modelled from the spec: \<open>FossenFnc.ED\<close> is not among the sources; the Euclidean
      distance between two (N, E) points, with the square root or (flag \<open>False\<close>) without
      it. A call that passes no \<open>sqrt\<close> argument is modelled with the flag \<open>True\<close>.\<close>
  "ED N0 E0 N1 E1 with_sqrt =
     (let d_sq = (N0 - N1) ^ 2 + (E0 - E1) ^ 2 in if with_sqrt then sqrt d_sq else d_sq)"

definition bng_abs :: "real \<Rightarrow> real \<Rightarrow> real \<Rightarrow> real \<Rightarrow> real" where
  \<comment> \<open>Modelled from the spec: \<open>FossenFnc.bng_abs\<close> is not among the sources; the absolute
      bearing from the point (N0, E0) to the point (N1, E1), in \<open>[0, 2 pi)\<close>.\<close>
  "bng_abs N0 E0 N1 E1 = angle_to_2pi (py_atan2 (E1 - E0) (N1 - N0))"

definition bng_rel :: "real \<Rightarrow> real \<Rightarrow> real \<Rightarrow> real \<Rightarrow> real \<Rightarrow> bool \<Rightarrow> real" where
  \<comment> \<open>Modelled from the spec: \<open>FossenFnc.bng_rel\<close> is not among the sources; the absolute
      bearing minus the own heading, wrapped into \<open>[0, 2 pi)\<close> or, with \<open>to_2pi=False\<close>,
      into \<open>(-pi, pi]\<close>. A call that passes no \<open>to_2pi\<close> argument wraps into \<open>[0, 2 pi)\<close>.\<close>
  "bng_rel N0 E0 N1 E1 head0 to_2pi =
     (if to_2pi then angle_to_2pi (bng_abs N0 E0 N1 E1 - head0)
      else angle_to_pi (bng_abs N0 E0 N1 E1 - head0))"

definition head_inter :: "real \<Rightarrow> real \<Rightarrow> real" where
  \<comment> \<open>Modelled from the spec: \<open>FossenFnc.head_inter\<close> is not among the sources; the heading
      intersection angle, the target's heading minus the own heading, in \<open>[0, 2 pi)\<close>.\<close>
  "head_inter head_OS head_TS = angle_to_2pi (head_TS - head_OS)"

definition xy_from_polar :: "real \<Rightarrow> real \<Rightarrow> real \<times> real" where
  \<comment> \<open>Modelled from the spec: \<open>FossenFnc.xy_from_polar\<close> is not among the sources.\<close>
  "xy_from_polar r angle = (r * sin angle, r * cos angle)"

definition polar_from_xy :: "real \<Rightarrow> real \<Rightarrow> real \<times> real" where
  \<comment> \<open>Modelled from the spec: \<open>FossenFnc.polar_from_xy\<close> is not among the sources; the
      pair (r, angle) of the vector (x, y). The flags \<open>with_r\<close> and \<open>with_angle\<close> only
      select which of the two is computed.\<close>
  "polar_from_xy x y = (sqrt (x ^ 2 + y ^ 2), angle_to_2pi (py_atan2 x y))"

definition project_vector :: "real \<Rightarrow> real \<Rightarrow> real \<Rightarrow> real \<Rightarrow> real \<times> real" where
  \<comment> \<open>Modelled from the spec: \<open>FossenFnc.project_vector\<close> is not among the sources; the
      (x, y) components of the projection of the polar vector A onto the direction of B.\<close>
  "project_vector VA angleA VB angleB = xy_from_polar (VA * cos (angleA - angleB)) angleB"

definition tcpa :: "real \<Rightarrow> real \<Rightarrow> real \<Rightarrow> real \<Rightarrow> real \<Rightarrow> real \<Rightarrow> real \<Rightarrow> real \<Rightarrow> real" where
  \<comment> \<open>Modelled from the spec: \<open>FossenFnc.tcpa\<close> is not among the sources; the signed time
      at which the relative position of two vessels is shortest when both keep course and
      speed. For equal velocities the quotient is HOL's \<open>x / 0 = 0\<close>; no statement below
      depends on the value of \<open>tcpa\<close>.\<close>
  "tcpa NOS EOS NTS ETS chiOS chiTS VOS VTS =
     (case xy_from_polar VOS chiOS of (vxOS, vyOS) \<Rightarrow>
      case xy_from_polar VTS chiTS of (vxTS, vyTS) \<Rightarrow>
        - ((ETS - EOS) * (vxTS - vxOS) + (NTS - NOS) * (vyTS - vyOS))
          / ((vxTS - vxOS) ^ 2 + (vyTS - vyOS) ^ 2))"

section \<open>MMG\_KVLCC2: the vessel dynamics model\<close>

subsection \<open>Hull parameter set\<close>

text \<open>
  The dictionary \<open>kvlcc2_full\<close> of \<open>KVLCC2.__init__\<close>, whose entries become attributes of
  the vessel. The keys \<open>m\<close>, \<open>d\<close> and \<open>B\<close> are the fields \<open>hull_m\<close>, \<open>hull_d\<close> and
  \<open>hull_B\<close>. The entry \<open>gamma_R\<close> is \<open>None\<close> in the source.
\<close>

record hull_params =
  C_b :: real
  Lpp :: real
  hull_B :: real
  hull_m :: real
  w_P0 :: real
  J_int :: real
  J_slo :: real
  x_G :: real
  x_P :: real
  D_p :: real
  k_0 :: real
  k_1 :: real
  k_2 :: real
  C_1 :: real
  C_2_plus :: real
  C_2_minus :: real
  l_R :: real
  gamma_R :: "real option"
  gamma_R_plus :: real
  gamma_R_minus :: real
  eta_param :: real
  kappa :: real
  A_R :: real
  epsilon :: real
  A_R_Ld_em :: real
  f_alpha :: real
  rho :: real
  t_R :: real
  t_P :: real
  x_H_dash :: real
  hull_d :: real
  m_x_dash :: real
  m_y_dash :: real
  R_0_dash :: real
  X_vv_dash :: real
  X_vr_dash :: real
  X_rr_dash :: real
  X_vvvv_dash :: real
  Y_v_dash :: real
  Y_r_dash :: real
  Y_vvv_dash :: real
  Y_vvr_dash :: real
  Y_vrr_dash :: real
  Y_rrr_dash :: real
  N_v_dash :: real
  N_r_dash :: real
  N_vvv_dash :: real
  N_vvr_dash :: real
  N_vrr_dash :: real
  N_rrr_dash :: real
  I_zG :: real
  J_z_dash :: real
  a_H :: real

definition kvlcc2_full :: hull_params where
  "kvlcc2_full = \<lparr>
     C_b = 0.810, Lpp = 320, hull_B = 58, hull_m = 312600 * 1020, w_P0 = 0.35,
     J_int = 0.4, J_slo = - 0.5, x_G = 11.2, x_P = - 160, D_p = 9.86,
     k_0 = 0.2931, k_1 = - 0.2753, k_2 = - 0.1359,
     C_1 = 2, C_2_plus = 1.6, C_2_minus = 1.1, l_R = - 0.710,
     gamma_R = None, gamma_R_plus = 0.640, gamma_R_minus = 0.395,
     eta_param = 0.626, kappa = 0.50, A_R = 112.5, epsilon = 1.09,
     A_R_Ld_em = 1 / 46.8, f_alpha = 2.747, rho = 1020, t_R = 0.387, t_P = 0.220,
     x_H_dash = - 0.464, hull_d = 20.8, m_x_dash = 0.022, m_y_dash = 0.223,
     R_0_dash = 0.022, X_vv_dash = - 0.040, X_vr_dash = 0.002, X_rr_dash = 0.011,
     X_vvvv_dash = 0.771, Y_v_dash = - 0.315, Y_r_dash = 0.083, Y_vvv_dash = - 1.607,
     Y_vvr_dash = 0.379, Y_vrr_dash = - 0.391, Y_rrr_dash = 0.008,
     N_v_dash = - 0.137, N_r_dash = - 0.049, N_vvv_dash = - 0.030,
     N_vvr_dash = - 0.294, N_vrr_dash = 0.055, N_rrr_dash = - 0.013,
     I_zG = 2000000000000, J_z_dash = 0.011, a_H = 0.312 \<rparr>"

subsection \<open>Current coefficients\<close>

text \<open>
  \<open>_C_X\<close>, \<open>_C_Y\<close> and \<open>_C_N\<close> are written in the class body with the single parameter
  \<open>g_rc\<close> (no \<open>self\<close>). \<open>_mmg_dynamics\<close> calls them as \<open>self._C_X(g_rc)\<close>: the bound
  call passes the vessel and \<open>g_rc\<close> to a function of one parameter, which raises TypeError
  before the body runs. \<open>self_call1\<close> is that call.
\<close>

definition C_X :: "real \<Rightarrow> real" where
  "C_X g_rc = - 0.0665 * g_rc ^ 5 + 0.5228 * g_rc ^ 4 - 1.4365 * g_rc ^ 3
               + 1.6024 * g_rc ^ 2 - 0.2967 * g_rc - 0.4691"

definition C_Y :: "real \<Rightarrow> real" where
  "C_Y g_rc = 0.05930686 * g_rc ^ 4 - 0.37522028 * g_rc ^ 3 + 0.46812233 * g_rc ^ 2
               + 0.39114522 * g_rc - 0.00273578"

definition C_N :: "real \<Rightarrow> real" where
  "C_N g_rc = - 0.0140 * g_rc ^ 5 + 0.1131 * g_rc ^ 4 - 0.2757 * g_rc ^ 3
               + 0.1617 * g_rc ^ 2 + 0.0728 * g_rc"

definition self_call1 :: "(real \<Rightarrow> real) \<Rightarrow> real \<Rightarrow> py_error + real" where
  "self_call1 f g_rc = Inl TypeError"

subsection \<open>The system of ODEs\<close>

definition vm_from_v_r :: "hull_params \<Rightarrow> real \<Rightarrow> real \<Rightarrow> real" where
  "vm_from_v_r P v r = v - x_G P * r"

text \<open>
  The drift angle \<open>math.atan2(-vm, u)\<close>. When \<open>vm\<close> is the float \<open>0.0\<close> the first
  argument is \<open>-0.0\<close>, for which \<open>math.atan2\<close> returns \<open>-pi\<close> at a negative \<open>u\<close>
  (and \<open>-0.0\<close> at a positive one). The other zero, \<open>vm = -0.0\<close>, for which the result
  at a negative \<open>u\<close> is \<open>pi\<close>, arises only from \<open>v = -0.0\<close> with \<open>x_G * r = 0.0\<close> and
  is not modelled.
\<close>

definition drift_angle :: "real \<Rightarrow> real \<Rightarrow> real" where
  "drift_angle vm u = (if vm = 0 \<and> u < 0 then - pi else py_atan2 (- vm) u)"

text \<open>Preparation: \<open>(U, beta, v_dash, r_dash)\<close> from \<open>u\<close>, \<open>vm\<close> and \<open>r\<close>.\<close>

definition mmg_preparation ::
  "hull_params \<Rightarrow> real \<Rightarrow> real \<Rightarrow> real \<Rightarrow> py_error + (real \<times> real \<times> real \<times> real)" where
  "mmg_preparation P u vm r =
     err_bind (py_sqrt (u ^ 2 + vm ^ 2)) (\<lambda>U.
       if U = 0 then Inr (U, 0, 0, 0)
       else
         err_bind (py_div vm U) (\<lambda>v_dash.
         err_bind (py_div (r * Lpp P) U) (\<lambda>r_dash.
           Inr (U, drift_angle vm u, v_dash, r_dash))))"

text \<open>Hydrodynamic forces acting on the ship hull.\<close>

definition mmg_X_H :: "hull_params \<Rightarrow> real \<Rightarrow> real \<Rightarrow> real \<Rightarrow> real" where
  "mmg_X_H P U v_dash r_dash =
     0.5 * rho P * Lpp P * hull_d P * U ^ 2 *
       (- R_0_dash P + X_vv_dash P * v_dash ^ 2 + X_vr_dash P * v_dash * r_dash
        + X_rr_dash P * r_dash ^ 2 + X_vvvv_dash P * v_dash ^ 4)"

definition mmg_Y_H :: "hull_params \<Rightarrow> real \<Rightarrow> real \<Rightarrow> real \<Rightarrow> real" where
  "mmg_Y_H P U v_dash r_dash =
     0.5 * rho P * Lpp P * hull_d P * U ^ 2 *
       (Y_v_dash P * v_dash + Y_r_dash P * r_dash + Y_vvv_dash P * v_dash ^ 3
        + Y_vvr_dash P * v_dash ^ 2 * r_dash + Y_vrr_dash P * v_dash * r_dash ^ 2
        + Y_rrr_dash P * r_dash ^ 3)"

definition mmg_N_H :: "hull_params \<Rightarrow> real \<Rightarrow> real \<Rightarrow> real \<Rightarrow> real" where
  "mmg_N_H P U v_dash r_dash =
     0.5 * rho P * Lpp P ^ 2 * hull_d P * U ^ 2 *
       (N_v_dash P * v_dash + N_r_dash P * r_dash + N_vvv_dash P * v_dash ^ 3
        + N_vvr_dash P * v_dash ^ 2 * r_dash + N_vrr_dash P * v_dash * r_dash ^ 2
        + N_rrr_dash P * r_dash ^ 3)"

text \<open>
  Longitudinal surge force due to the propeller: \<open>(w_P, J, K_T, X_P)\<close>. The dictionary
  holds the keys \<open>C_1\<close>, \<open>C_2_plus\<close>, \<open>C_2_minus\<close> and \<open>k_0\<close>, \<open>k_1\<close>, \<open>k_2\<close>, so both
  key tests of the source succeed and their first branches are the ones modelled.
\<close>

definition mmg_propeller ::
  "hull_params \<Rightarrow> real \<Rightarrow> real \<Rightarrow> real \<Rightarrow> real \<Rightarrow> py_error + (real \<times> real \<times> real \<times> real)" where
  "mmg_propeller P u beta r_dash nps =
     err_bind (py_div (x_P P) (Lpp P)) (\<lambda>q.
       let beta_P = beta - q * r_dash;
           C_2 = (if 0 \<le> beta_P then C_2_plus P else C_2_minus P);
           tmp = 1 - exp (- C_1 P * \<bar>beta_P\<bar>) * (C_2 - 1);
           w_P = 1 - (1 - w_P0 P) * (1 + tmp)
       in err_bind (if nps = 0 then Inr 0 else py_div ((1 - w_P) * u) (nps * D_p P)) (\<lambda>J.
            let K_T = k_0 P + k_1 P * J + k_2 P * J ^ 2;
                X_P = (1 - t_P P) * rho P * K_T * nps ^ 2 * D_p P ^ 4
            in Inr (w_P, J, K_T, X_P)))"

text \<open>Hydrodynamic forces by steering: \<open>(X_R, Y_R, N_R)\<close>.\<close>

definition mmg_u_R :: "hull_params \<Rightarrow> real \<Rightarrow> real \<Rightarrow> real \<Rightarrow> real \<Rightarrow> py_error + real" where
  "mmg_u_R P u w_P J K_T =
     (if J = 0 then Inr 0
      else
        err_bind (py_div (8 * K_T) (pi * J ^ 2)) (\<lambda>q.
        err_bind (py_sqrt (1 + q)) (\<lambda>s1.
        err_bind (py_sqrt (eta_param P * (1 + kappa P * (s1 - 1)) ^ 2 + (1 - eta_param P))) (\<lambda>s2.
          Inr (u * (1 - w_P) * epsilon P * s2)))))"

definition mmg_rudder ::
  "hull_params \<Rightarrow> real \<Rightarrow> real \<Rightarrow> real \<Rightarrow> real \<Rightarrow> real \<Rightarrow> real \<Rightarrow> real \<Rightarrow> real
     \<Rightarrow> py_error + (real \<times> real \<times> real)" where
  "mmg_rudder P u U beta r_dash rud_angle w_P J K_T =
     (let beta_R = beta - l_R P * r_dash;
          gamma = (case gamma_R P of
                     Some g \<Rightarrow> g
                   | None \<Rightarrow> (if beta_R < 0 then gamma_R_minus P else gamma_R_plus P));
          v_R = U * gamma * beta_R
      in err_bind (mmg_u_R P u w_P J K_T) (\<lambda>u_R.
         err_bind (py_sqrt (u_R ^ 2 + v_R ^ 2)) (\<lambda>U_R.
           let alpha_R = rud_angle - py_atan2 v_R u_R;
               F_N = 0.5 * A_R P * rho P * f_alpha P * U_R ^ 2 * sin alpha_R;
               X_R = - (1 - t_R P) * F_N * sin rud_angle;
               Y_R = - (1 + a_H P) * F_N * cos rud_angle;
               x_H = x_H_dash P * Lpp P;
               N_R = - (- 0.5 + a_H P * x_H) * F_N * cos rud_angle
           in Inr (X_R, Y_R, N_R))))"

text \<open>Forces related to currents: \<open>(X_C, Y_C, N_C)\<close>. \<open>fl_vel\<close> may be \<open>None\<close>.\<close>

definition mmg_currents ::
  "hull_params \<Rightarrow> real \<Rightarrow> real \<Rightarrow> real \<Rightarrow> real \<Rightarrow> real option
     \<Rightarrow> py_error + (real \<times> real \<times> real)" where
  "mmg_currents P u vm psi fl_psi fl_vel =
     (case fl_vel of
        None \<Rightarrow> Inr (0, 0, 0)
      | Some fv \<Rightarrow>
          if fv = 0 then Inr (0, 0, 0)
          else
            let u_c = - fv * cos (fl_psi - psi);
                u_rc = u - u_c;
                v_c = fv * sin (fl_psi - psi);
                v_rc = vm - v_c;
                g_rc = \<bar>- py_atan2 v_rc u_rc\<bar>;
                A_Fc = hull_B P * hull_d P * C_b P;
                A_Lc = Lpp P * hull_d P * C_b P
            in err_bind (self_call1 C_X g_rc) (\<lambda>cx.
               err_bind (self_call1 C_Y g_rc) (\<lambda>cy.
               err_bind (self_call1 C_N g_rc) (\<lambda>cn.
                 Inr (0.5 * rho P * A_Fc * cx * \<bar>u_rc\<bar> * u_rc,
                      0.5 * rho P * A_Lc * cy * \<bar>v_rc\<bar> * v_rc,
                      0.5 * rho P * A_Lc * Lpp P * cn * \<bar>v_rc\<bar> * v_rc)))))"

text \<open>Equation solving: \<open>(d_u, d_v, d_r)\<close> from the total forces \<open>X\<close>, \<open>Y\<close>, \<open>N_M\<close>.\<close>

definition mmg_solve ::
  "hull_params \<Rightarrow> real \<Rightarrow> real \<Rightarrow> real \<Rightarrow> real \<Rightarrow> real \<Rightarrow> real
     \<Rightarrow> py_error + (real \<times> real \<times> real)" where
  "mmg_solve P u vm r X Y N_M =
     (let m_x = m_x_dash P * (0.5 * rho P * Lpp P ^ 2 * hull_d P);
          m_y = m_y_dash P * (0.5 * rho P * Lpp P ^ 2 * hull_d P);
          J_z = J_z_dash P * (0.5 * rho P * Lpp P ^ 4 * hull_d P);
          m = hull_m P
      in err_bind (py_div (X + (m + m_y) * vm * r + x_G P * m * r ^ 2) (m + m_x)) (\<lambda>d_u.
           let f = I_zG P + J_z + x_G P ^ 2 * m
           in err_bind (py_div (x_G P * m * N_M) f) (\<lambda>q1.
              err_bind (py_div (x_G P ^ 2 * m ^ 2 * u * r) f) (\<lambda>q2.
              err_bind (py_div (x_G P ^ 2 * m ^ 2) f) (\<lambda>q3.
              err_bind (py_div (Y - (m + m_x) * u * r - q1 + q2) (m + m_y - q3)) (\<lambda>d_vm.
              err_bind (py_div (N_M - x_G P * m * (d_vm + u * r)) f) (\<lambda>d_r.
                Inr (d_u, d_vm + x_G P * d_r, d_r))))))))"

definition mmg_dynamics ::
  "hull_params \<Rightarrow> real \<times> real \<times> real \<Rightarrow> real \<Rightarrow> real \<Rightarrow> real \<Rightarrow> real \<Rightarrow> real option
     \<Rightarrow> py_error + (real \<times> real \<times> real)" where
  "mmg_dynamics P nu psi rud_angle nps fl_psi fl_vel =
     (case nu of (u, v, r) \<Rightarrow>
        let vm = vm_from_v_r P v r
        in err_bind (mmg_preparation P u vm r) (\<lambda>(U, beta, v_dash, r_dash).
           err_bind (mmg_propeller P u beta r_dash nps) (\<lambda>(w_P, J, K_T, X_P).
           err_bind (mmg_rudder P u U beta r_dash rud_angle w_P J K_T) (\<lambda>(X_R, Y_R, N_R).
           err_bind (mmg_currents P u vm psi fl_psi fl_vel) (\<lambda>(X_C, Y_C, N_C).
             mmg_solve P u vm r
               (mmg_X_H P U v_dash r_dash + X_R + X_P + X_C)
               (mmg_Y_H P U v_dash r_dash + Y_R + Y_C)
               (mmg_N_H P U v_dash r_dash + N_R + N_C))))))"

subsection \<open>The vessel and its update\<close>

type_synonym vec3 = "real \<times> real \<times> real"

definition vec_add :: "vec3 \<Rightarrow> vec3 \<Rightarrow> vec3" where
  "vec_add a b = (case a of (a1, a2, a3) \<Rightarrow> case b of (b1, b2, b3) \<Rightarrow> (a1 + b1, a2 + b2, a3 + b3))"

definition vec_scale :: "vec3 \<Rightarrow> real \<Rightarrow> vec3" where
  "vec_scale a c = (case a of (a1, a2, a3) \<Rightarrow> (a1 * c, a2 * c, a3 * c))"

definition np_dot :: "vec3 \<times> vec3 \<times> vec3 \<Rightarrow> vec3 \<Rightarrow> vec3" where
  \<comment> \<open>\<open>np.dot\<close> of a 3x3 matrix, given by its rows, and a vector\<close>
  "np_dot M x =
     (case M of ((a11, a12, a13), (a21, a22, a23), (a31, a32, a33)) \<Rightarrow>
      case x of (x1, x2, x3) \<Rightarrow>
        (a11 * x1 + a12 * x2 + a13 * x3,
         a21 * x1 + a22 * x2 + a23 * x3,
         a31 * x1 + a32 * x2 + a33 * x3))"

definition T_of_psi :: "real \<Rightarrow> vec3 \<times> vec3 \<times> vec3" where
  "T_of_psi psi = ((cos psi, - sin psi, 0), (sin psi, cos psi, 0), (0, 0, 1))"

text \<open>
  The attributes shared by the vessel classes: \<open>eta = (N, E, psi)\<close> in the NE-system and
  \<open>nu = (u, v, r)\<close> in the body system.
\<close>

record vessel =
  delta_t :: real
  N_max :: real
  E_max :: real
  action :: int
  eta :: vec3
  nu :: vec3
  nu_dot :: vec3

record KVLCC2 = vessel +
  nps :: real
  rud_angle_max :: real
  rud_angle_inc :: real
  rud_angle :: real

definition KVLCC2_init ::
  "real \<Rightarrow> real \<Rightarrow> real \<Rightarrow> real \<Rightarrow> real \<Rightarrow> real \<Rightarrow> real \<Rightarrow> real \<Rightarrow> real \<Rightarrow> real \<Rightarrow> KVLCC2" where
  "KVLCC2_init N_init E_init psi_init u_init v_init r_init nps0 dt Nmax Emax =
     \<lparr> delta_t = dt, N_max = Nmax, E_max = Emax, action = 0,
       eta = (N_init, E_init, f32 psi_init), nu = (u_init, v_init, r_init), nu_dot = (0, 0, 0),
       nps = nps0, rud_angle_max = dtr 10, rud_angle_inc = dtr 2.5, rud_angle = 0 \<rparr>"

definition heading :: "'a vessel_scheme \<Rightarrow> real" where
  \<comment> \<open>\<open>eta[2]\<close>\<close>
  "heading s = snd (snd (eta s))"

text \<open>
  \<open>_upd_dynamics\<close>. The in-place sum \<open>self.eta += ...\<close> and the assignment
  \<open>self.eta[2] = angle_to_2pi(self.eta[2])\<close> both store the heading in the float32 array.
\<close>

definition upd_dynamics :: "KVLCC2 \<Rightarrow> py_error + KVLCC2" where
  "upd_dynamics s =
     (let eta_dot_old = np_dot (T_of_psi (heading s)) (nu s)
      in err_bind (mmg_dynamics kvlcc2_full (nu s) (heading s) (rud_angle s) (nps s) 0 (Some 0))
           (\<lambda>nd.
              let nu_new = vec_add (nu s) (vec_scale nd (delta_t s));
                  eta_dot_new = np_dot (T_of_psi (heading s)) nu_new;
                  eta_new = vec_add (eta s)
                              (vec_scale (vec_scale (vec_add eta_dot_old eta_dot_new) 0.5) (delta_t s))
              in case eta_new of (N, E, psi) \<Rightarrow>
                   Inr (s\<lparr>nu_dot := nd, nu := nu_new,
                          eta := (N, E, f32 (angle_to_2pi (f32 psi)))\<rparr>)))"

definition control :: "KVLCC2 \<Rightarrow> int \<Rightarrow> py_error + KVLCC2" where
  "control s a =
     (if a \<in> {0, 1, 2} then
        let ang = (if a = 0 then rud_angle s
                   else if a = 1 then rud_angle s + rud_angle_inc s
                   else rud_angle s - rud_angle_inc s)
        in Inr (s\<lparr>action := a, rud_angle := np_clip ang (- rud_angle_max s) (rud_angle_max s)\<rparr>)
      else Inl AssertionError)"

definition get_V :: "hull_params \<Rightarrow> 'a vessel_scheme \<Rightarrow> real" where
  "get_V P s = (case nu s of (u, v, r) \<Rightarrow> sqrt (u ^ 2 + (vm_from_v_r P v r) ^ 2))"

definition get_sideslip :: "hull_params \<Rightarrow> 'a vessel_scheme \<Rightarrow> real" where
  "get_sideslip P s = (case nu s of (u, v, r) \<Rightarrow> snd (polar_from_xy (vm_from_v_r P v r) u))"

definition get_course :: "hull_params \<Rightarrow> 'a vessel_scheme \<Rightarrow> real" where
  "get_course P s = angle_to_2pi (heading s + get_sideslip P s)"

definition is_off_map :: "'a vessel_scheme \<Rightarrow> bool" where
  "is_off_map s =
     (case eta s of (N, E, psi) \<Rightarrow> N \<le> 0 \<or> N_max s \<le> N \<or> E \<le> 0 \<or> E_max s \<le> E)"

subsection \<open>Heading control of the path-planning environment\<close>

definition manual_heading_control :: "real \<Rightarrow> KVLCC2 \<Rightarrow> real \<Rightarrow> py_error + KVLCC2" where
  \<comment> \<open>\<open>HHOS_PathPlanning_Env._manual_heading_control\<close>; the first argument is
      \<open>self.d_head_scale\<close>; the new heading is stored in the float32 array \<open>vessel.eta\<close>\<close>
  "manual_heading_control d_head_scale vessel a =
     (if - 1 \<le> a \<and> a \<le> 1 then
        (case eta vessel of (N, E, psi) \<Rightarrow>
           Inr (vessel\<lparr>eta := (N, E, f32 (angle_to_2pi (psi + a * d_head_scale)))\<rparr>))
      else Inl AssertionError)"

section \<open>FossenEnv: the collision-avoidance environment\<close>

subsection \<open>The vessel class CyberShipII\<close>

text \<open>
  The class \<open>CyberShipII\<close> (\<open>FossenCS2\<close>) is not among the sources. Its objects are the
  record below, holding the attributes that \<open>FossenEnv\<close> reads and writes. Its
  constructor and the methods \<open>_u_from_tau_u\<close>, \<open>_tau_u_from_u\<close> and \<open>_set_tau\<close>, of
  which the spec says nothing, are parameters of the model (\<open>CS2_ext\<close>).
\<close>

record CyberShipII = vessel +
  eta_dot :: vec3
  tau :: vec3
  tau_u :: "real option"
  f2 :: "real option"
  f3 :: "real option"
  f23_sum :: "real option"
  tau_cnt_r :: real
  tau_cnt_r_max :: real
  ship_length :: real

record CS2_args =
  arg_N_init :: real
  arg_E_init :: real
  arg_psi_init :: real
  arg_u_init :: real
  arg_v_init :: real
  arg_r_init :: real
  arg_delta_t :: real
  arg_N_max :: real
  arg_E_max :: real
  arg_cnt_approach :: string
  arg_tau_u :: "real option"
  arg_f2 :: "real option"
  arg_f23_sum :: "real option"

record CS2_ext =
  CS2_new :: "CS2_args \<Rightarrow> CyberShipII"
  u_from_tau_u :: "CyberShipII \<Rightarrow> real \<Rightarrow> real"
  tau_u_from_u :: "CyberShipII \<Rightarrow> real \<Rightarrow> real"
  set_tau :: "CyberShipII \<Rightarrow> CyberShipII"

definition CS2_get_V :: "CyberShipII \<Rightarrow> real" where
  \<comment> \<open>Modelled from the spec: \<open>CyberShipII._get_V\<close> is not among the sources; the speed
      over ground from the body-frame velocity components.\<close>
  "CS2_get_V s = (case nu s of (u, v, r) \<Rightarrow> sqrt (u ^ 2 + v ^ 2))"

definition CS2_get_course :: "CyberShipII \<Rightarrow> real" where
  \<comment> \<open>Modelled from the spec: \<open>CyberShipII._get_course\<close> is not among the sources; the
      course angle is the heading plus the sideslip angle, the latter computed from the
      body-frame velocity components.\<close>
  "CS2_get_course s =
     (case nu s of (u, v, r) \<Rightarrow> angle_to_2pi (heading s + snd (polar_from_xy v u)))"

definition CS2_is_off_map :: "CyberShipII \<Rightarrow> bool" where
  \<comment> \<open>Modelled from the spec: \<open>CyberShipII._is_off_map\<close> is not among the sources; the
      vessel has left the navigable area, as \<open>KVLCC2._is_off_map\<close> tests it.\<close>
  "CS2_is_off_map s = is_off_map s"

subsection \<open>The environment object\<close>

text \<open>
  \<open>FossenEnv_config\<close> holds what \<open>__init__\<close> sets; \<open>action_space\<close> is \<open>None\<close> when
  \<open>__init__\<close> leaves the attribute unset, and \<open>Some n\<close> for \<open>spaces.Discrete(n)\<close>;
  \<open>obs_size\<close> is the length of the observation box. \<open>FossenEnv\<close> adds what \<open>reset\<close>
  and \<open>step\<close> maintain. The attributes \<open>delta_t\<close>, \<open>N_max\<close> and \<open>E_max\<close> of the
  environment are the fields \<open>env_delta_t\<close>, \<open>env_N_max\<close> and \<open>env_E_max\<close>, the
  attribute \<open>r\<close> is the field \<open>env_r\<close>, and \<open>N_TSs\<close> is the length of \<open>TSs\<close>.
\<close>

record FossenEnv_config =
  env_delta_t :: real
  env_N_max :: real
  env_E_max :: real
  N_TSs_max :: nat
  N_TSs_random :: bool
  N_TSs_increasing :: bool
  outer_step_cnt :: "int option"
  sight :: real
  coll_dist :: real
  TCPA_crit :: real
  min_dist_spawn_TS :: real
  cnt_approach :: string
  state_design :: string
  goal_reach_dist :: real
  stop_spawn_dist :: real
  num_obs_OS :: nat
  num_obs_TS :: nat
  plot_traj :: bool
  obs_size :: nat
  action_space :: "nat option"
  max_episode_steps :: nat
  env_r :: real
  r_head :: real
  r_dist :: real
  r_coll :: real
  r_COLREG :: real
  r_comf :: real

record FossenEnv = FossenEnv_config +
  goal :: "real \<times> real"
  OS :: CyberShipII
  TSs :: "CyberShipII list"
  TS_COLREGs :: "nat list"
  TS_COLREGs_old :: "nat list"
  respawn_flags :: "bool list"

definition FossenEnv_init ::
  "nat \<Rightarrow> bool \<Rightarrow> bool \<Rightarrow> string \<Rightarrow> string \<Rightarrow> bool \<Rightarrow> py_error + FossenEnv_config" where
  "FossenEnv_init N_TSs_max0 N_TSs_random0 N_TSs_increasing0 cnt_approach0 state_design0 plot_traj0 =
     (if \<not> (of_bool N_TSs_random0 + of_bool N_TSs_increasing0 \<le> (1::nat)) then Inl AssertionError
      else if state_design0 \<notin> {''maxRisk'', ''RecDQN''} then Inl AssertionError
      else Inr \<lparr>
        env_delta_t = 0.5, env_N_max = 200, env_E_max = 200,
        N_TSs_max = N_TSs_max0, N_TSs_random = N_TSs_random0,
        N_TSs_increasing = N_TSs_increasing0,
        outer_step_cnt = (if N_TSs_increasing0 then Some 0 else None),
        sight = 100, coll_dist = 6.275, TCPA_crit = 120, min_dist_spawn_TS = 20,
        cnt_approach = cnt_approach0, state_design = state_design0,
        goal_reach_dist = 10, stop_spawn_dist = 5 * 10,
        num_obs_OS = 9, num_obs_TS = 6, plot_traj = plot_traj0,
        obs_size = (if state_design0 = ''RecDQN'' then 9 + N_TSs_max0 * 6 else 9 + 6),
        action_space = (if cnt_approach0 \<in> {''tau'', ''rps_angle'', ''f123''} then Some 3 else None),
        max_episode_steps = 500,
        env_r = 0, r_head = 0, r_dist = 0, r_coll = 0, r_COLREG = 0, r_comf = 0 \<rparr>)"

definition goal_N :: "'a FossenEnv_scheme \<Rightarrow> real" where
  \<comment> \<open>\<open>self.goal["N"]\<close>\<close>
  "goal_N env = fst (goal env)"

definition goal_E :: "'a FossenEnv_scheme \<Rightarrow> real" where
  \<comment> \<open>\<open>self.goal["E"]\<close>\<close>
  "goal_E env = snd (goal env)"

definition pos_N :: "'a vessel_scheme \<Rightarrow> real" where
  \<comment> \<open>\<open>eta[0]\<close>\<close>
  "pos_N s = fst (eta s)"

definition pos_E :: "'a vessel_scheme \<Rightarrow> real" where
  \<comment> \<open>\<open>eta[1]\<close>\<close>
  "pos_E s = fst (snd (eta s))"

subsection \<open>Ship domain and COLREG situation\<close>

definition get_ship_domain :: "CyberShipII \<Rightarrow> CyberShipII \<Rightarrow> real" where
  \<comment> \<open>\<open>V**1.26\<close> is the real power; it is 0 at \<open>V = 0\<close> in Python and in HOL.\<close>
  "get_ship_domain OSv TSv =
     (let VOS = CS2_get_V OSv; VTS = CS2_get_V TSv;
          chiOS = CS2_get_course OSv; chiTS = CS2_get_course TSv
      in case xy_from_polar VOS chiOS of (vxOS, vyOS) \<Rightarrow>
         case xy_from_polar VTS chiTS of (vxTS, vyTS) \<Rightarrow>
           let VR = sqrt ((vyTS - vyOS) ^ 2 + (vxTS - vxOS) ^ 2);
               V = max VOS VR
           in ship_length OSv * V powr 1.26 + 30 * V)"

definition get_COLREG_situation :: "real \<Rightarrow> CyberShipII \<Rightarrow> CyberShipII \<Rightarrow> nat" where
  \<comment> \<open>the first argument is \<open>self.sight\<close>\<close>
  "get_COLREG_situation sight0 OSv TSv =
     (let NOS = pos_N OSv; EOS = pos_E OSv; psi_OS = heading OSv;
          NTS = pos_N TSv; ETS = pos_E TSv; psi_TS = heading TSv;
          V_OS = CS2_get_V OSv; V_TS = CS2_get_V TSv;
          chiOS = CS2_get_course OSv; chiTS = CS2_get_course TSv
      in if ED NOS EOS NTS ETS True > sight0 then 0
         else
           let bng_OS = bng_rel NOS EOS NTS ETS psi_OS True;
               bng_TS = bng_rel NTS ETS NOS EOS psi_TS True;
               C_T = head_inter psi_OS psi_TS;
               V_rel = (case project_vector V_OS chiOS V_TS chiTS of
                          (V_rel_x, V_rel_y) \<Rightarrow> fst (polar_from_xy V_rel_x V_rel_y))
           in if - 5 \<le> rtd (angle_to_pi bng_OS) \<and> rtd (angle_to_pi bng_OS) \<le> 5
                 \<and> 175 \<le> rtd C_T \<and> rtd C_T \<le> 185 then 1
              else if 5 \<le> rtd bng_OS \<and> rtd bng_OS \<le> 45
                 \<and> 185 \<le> rtd C_T \<and> rtd C_T \<le> 210 then 2
              else if 45 < rtd bng_OS \<and> rtd bng_OS \<le> 112.5
                 \<and> 210 < rtd C_T \<and> rtd C_T \<le> 292.5 then 3
              else if 247.5 \<le> rtd bng_OS \<and> rtd bng_OS \<le> 355
                 \<and> 67.5 \<le> rtd C_T \<and> rtd C_T \<le> 175 then 4
              else if 112.5 \<le> rtd bng_TS \<and> rtd bng_TS \<le> 247.5
                 \<and> - 67.5 \<le> rtd (angle_to_pi C_T) \<and> rtd (angle_to_pi C_T) \<le> 67.5
                 \<and> V_rel > V_TS then 5
              else 0)"

definition set_COLREGs :: "FossenEnv \<Rightarrow> FossenEnv" where
  "set_COLREGs env =
     env\<lparr>TS_COLREGs_old := TS_COLREGs env,
         TS_COLREGs := map (get_COLREG_situation (sight env) (OS env)) (TSs env)\<rparr>"

subsection \<open>The target-ship generator\<close>

text \<open>
  The random numbers that one pass of the rejection loop of \<open>_get_TS\<close> consumes, in the
  order in which it draws them. \<open>np.random.uniform(a, b)\<close> is \<open>a + (b - a) w\<close> for a unit
  sample \<open>w\<close> in \<open>[0, 1)\<close>; \<open>d_COLREG_s\<close> is the result of \<open>random.choice([1,2,3,4,5])\<close>.
  The generator is run on the list of the draws of its successive passes: it returns
  \<open>None\<close> when the list is used up before a candidate is accepted (the loop has no
  bound), and otherwise the outcome together with the unused draws.
\<close>

record TS_draw =
  w_thrust :: real
  w_N_init :: real
  w_E_init :: real
  w_psi_init :: real
  d_COLREG_s :: nat
  w_t_hit :: real
  w_C_TS_s :: real
  w_VTS :: real

definition np_uniform :: "real \<Rightarrow> real \<Rightarrow> real \<Rightarrow> real" where
  "np_uniform low high w = low + (high - low) * w"

definition set_nu0 :: "CyberShipII \<Rightarrow> real \<Rightarrow> CyberShipII" where
  \<comment> \<open>\<open>TS.nu[0] = x\<close>\<close>
  "set_nu0 TSv x = (case nu TSv of (u, v, r) \<Rightarrow> TSv\<lparr>nu := (x, v, r)\<rparr>)"

definition nu0 :: "'a vessel_scheme \<Rightarrow> real" where
  \<comment> \<open>\<open>nu[0]\<close>\<close>
  "nu0 s = fst (nu s)"

definition nu2 :: "'a vessel_scheme \<Rightarrow> real" where
  \<comment> \<open>\<open>nu[2]\<close>\<close>
  "nu2 s = snd (snd (nu s))"

text \<open>The sampled vessel with its predicted converged speed (the head of the loop body).\<close>

definition sample_TS :: "CS2_ext \<Rightarrow> FossenEnv \<Rightarrow> TS_draw \<Rightarrow> py_error + CyberShipII" where
  "sample_TS X env d =
     (let thrust = np_uniform 0 5 (w_thrust d);
          args = \<lparr> arg_N_init = np_uniform (env_N_max env / 5) (env_N_max env) (w_N_init d),
                   arg_E_init = np_uniform (env_E_max env / 5) (env_E_max env) (w_E_init d),
                   arg_psi_init = np_uniform 0 (2 * pi) (w_psi_init d),
                   arg_u_init = 0, arg_v_init = 0, arg_r_init = 0,
                   arg_delta_t = env_delta_t env, arg_N_max = env_N_max env,
                   arg_E_max = env_E_max env, arg_cnt_approach = cnt_approach env,
                   arg_tau_u = (if cnt_approach env = ''tau'' then Some thrust else None),
                   arg_f2 = (if cnt_approach env = ''tau'' then None else Some (thrust / 2)),
                   arg_f23_sum = (if cnt_approach env = ''tau'' then None else Some thrust) \<rparr>;
          TSv = CS2_new X args
      in if cnt_approach env = ''tau'' then
           (case tau_u TSv of
              None \<Rightarrow> Inl TypeError
            | Some t \<Rightarrow> Inr (set_nu0 TSv (u_from_tau_u X TSv t)))
         else
           (case f23_sum TSv of
              None \<Rightarrow> Inl TypeError
            | Some t \<Rightarrow> Inr (set_nu0 TSv (u_from_tau_u X TSv t))))"

text \<open>
  The intersection angle sampled for the drawn situation; a value of \<open>COLREG_s\<close> outside
  1 to 5 would leave \<open>C_TS_s\<close> unbound.
\<close>

definition sample_C_TS_s :: "nat \<Rightarrow> real \<Rightarrow> py_error + real" where
  "sample_C_TS_s COLREG_s w =
     (if COLREG_s = 1 then Inr (dtr (np_uniform 175 185 w))
      else if COLREG_s = 2 then Inr (dtr (np_uniform 185 210 w))
      else if COLREG_s = 3 then Inr (dtr (np_uniform 210 292.5 w))
      else if COLREG_s = 4 then Inr (dtr (np_uniform 67.5 175 w))
      else if COLREG_s = 5 then Inr (angle_to_2pi (dtr (np_uniform (- 67.5) 67.5 w)))
      else Inl UnboundLocalError)"

text \<open>One pass of the loop body up to the assignment of \<open>TS.eta\<close>: the candidate vessel.\<close>

definition candidate_TS :: "CS2_ext \<Rightarrow> FossenEnv \<Rightarrow> TS_draw \<Rightarrow> py_error + CyberShipII" where
  "candidate_TS X env d =
     err_bind (sample_TS X env d) (\<lambda>TS0.
       let N0 = pos_N (OS env); E0 = pos_E (OS env);
           chiOS = CS2_get_course (OS env);
           VOS = CS2_get_V (OS env);
           COLREG_s = d_COLREG_s d;
           bng_abs_goal = bng_abs N0 E0 (goal_N env) (goal_E env)
       in case project_vector VOS chiOS 1 bng_abs_goal of (VR_goal_x, VR_goal_y) \<Rightarrow>
          let t_hit = np_uniform (TCPA_crit env * 0.5) (TCPA_crit env) (w_t_hit d);
              E_hit = E0 + VR_goal_x * t_hit;
              N_hit = N0 + VR_goal_y * t_hit
          in err_bind (sample_C_TS_s COLREG_s (w_C_TS_s d)) (\<lambda>C_TS_s.
               let head_TS_s = angle_to_2pi (C_TS_s + bng_abs_goal);
                   V_max_TS = (case project_vector VOS chiOS 1 head_TS_s of
                                 (VR_TS_x, VR_TS_y) \<Rightarrow> fst (polar_from_xy VR_TS_x VR_TS_y));
                   VTS = (if COLREG_s \<in> {1, 2, 3, 4} then nu0 TS0
                          else np_uniform 0 V_max_TS (w_VTS d));
                   TS1 = (if COLREG_s \<in> {1, 2, 3, 4} then TS0
                          else
                            let TSa = set_nu0 TS0 VTS;
                                tau_u0 = tau_u_from_u X TSa VTS;
                                TSb = (if cnt_approach env = ''tau'' then TSa\<lparr>tau_u := Some tau_u0\<rparr>
                                       else if cnt_approach env = ''f123'' then
                                         TSa\<lparr>f23_sum := Some tau_u0, f2 := Some (tau_u0 / 2),
                                             f3 := Some (tau_u0 / 2)\<rparr>
                                       else TSa)
                            in set_tau X TSb);
                   E_TS = E_hit - VTS * sin head_TS_s * t_hit;
                   N_TS = N_hit - VTS * cos head_TS_s * t_hit
               in Inr (TS1\<lparr>eta := (N_TS, E_TS, head_TS_s)\<rparr>)))"

definition far_enough :: "FossenEnv \<Rightarrow> CyberShipII \<Rightarrow> bool" where
  \<comment> \<open>the test \<open>min([ED(...) for TS_there in self.TSs]) >= self.min_dist_spawn_TS\<close>\<close>
  "far_enough env TSv =
     (min_list (map (\<lambda>TS_there. ED (pos_N TSv) (pos_E TSv) (pos_N TS_there) (pos_E TS_there) True)
                    (TSs env))
      \<ge> min_dist_spawn_TS env)"

fun get_TS_loop ::
  "CS2_ext \<Rightarrow> FossenEnv \<Rightarrow> TS_draw list \<Rightarrow> (py_error + CyberShipII \<times> TS_draw list) option" where
  "get_TS_loop X env [] = None"
| "get_TS_loop X env (d # ds) =
     (case candidate_TS X env d of
        Inl e \<Rightarrow> Some (Inl e)
      | Inr TSv \<Rightarrow>
          if length (TSs env) = 0 then Some (Inr (TSv, ds))
          else if far_enough env TSv then Some (Inr (TSv, ds))
          else get_TS_loop X env ds)"

definition get_TS ::
  "CS2_ext \<Rightarrow> FossenEnv \<Rightarrow> TS_draw list \<Rightarrow> (py_error + CyberShipII \<times> TS_draw list) option" where
  "get_TS X env ds =
     (if cnt_approach env \<notin> {''tau'', ''f123''} then Some (Inl AssertionError)
      else get_TS_loop X env ds)"

text \<open>
  The loop of \<open>reset\<close> that fills \<open>self.TSs\<close>: each new vessel is generated against the
  vessels appended so far (the source notes that it uses no list comprehension for that
  reason).
\<close>

fun reset_TSs ::
  "CS2_ext \<Rightarrow> FossenEnv \<Rightarrow> nat \<Rightarrow> TS_draw list \<Rightarrow> (py_error + FossenEnv \<times> TS_draw list) option" where
  "reset_TSs X env 0 ds = Some (Inr (env, ds))"
| "reset_TSs X env (Suc n) ds =
     (case get_TS X env ds of
        None \<Rightarrow> None
      | Some (Inl e) \<Rightarrow> Some (Inl e)
      | Some (Inr (TSv, ds')) \<Rightarrow> reset_TSs X (env\<lparr>TSs := TSs env @ [TSv]\<rparr>) n ds')"

subsection \<open>Respawning\<close>

definition handle_respawn ::
  "CS2_ext \<Rightarrow> FossenEnv \<Rightarrow> TS_draw list \<Rightarrow> CyberShipII \<Rightarrow> bool \<Rightarrow> bool \<Rightarrow> bool
     \<Rightarrow> (py_error + (CyberShipII \<times> bool) \<times> TS_draw list) option" where
  "handle_respawn X env ds TSv respawn mirrow clip =
     (let fresh = (case get_TS X env ds of
                     None \<Rightarrow> None
                   | Some (Inl e) \<Rightarrow> Some (Inl e)
                   | Some (Inr (TSn, ds')) \<Rightarrow> Some (Inr ((TSn, True), ds')))
      in if \<not> (of_bool respawn + of_bool mirrow + of_bool clip \<le> (1::nat)) then Some (Inl AssertionError)
      else if ED (pos_N (OS env)) (pos_E (OS env)) (goal_N env) (goal_E env) True > stop_spawn_dist env
      then
        if CS2_is_off_map TSv then
          if respawn then fresh
          else if mirrow then
            (let psi = heading TSv
             in if pos_E TSv \<le> 0 \<or> pos_E TSv \<ge> E_max TSv
                then Some (Inr ((TSv\<lparr>eta := (pos_N TSv, pos_E TSv, 2 * pi - psi)\<rparr>, False), ds))
                else Some (Inr ((TSv\<lparr>eta := (pos_N TSv, pos_E TSv, pi - psi)\<rparr>, False), ds)))
          else if clip then
            Some (Inr ((TSv\<lparr>eta := (np_clip (pos_N TSv) 0 (N_max TSv),
                                      np_clip (pos_E TSv) 0 (E_max TSv), heading TSv)\<rparr>, False), ds))
          else Some (Inr ((TSv, False), ds))
        else
          (let TCPA_TS = tcpa (pos_N (OS env)) (pos_E (OS env)) (pos_N TSv) (pos_E TSv)
                              (CS2_get_course (OS env)) (CS2_get_course TSv)
                              (CS2_get_V (OS env)) (CS2_get_V TSv)
           in if TCPA_TS < - 0.1 * TCPA_crit env \<or> TCPA_TS > 1.25 * TCPA_crit env then fresh
              else Some (Inr ((TSv, False), ds)))
      else Some (Inr ((TSv, False), ds)))"

text \<open>
  The respawn step of \<open>step\<close>: the list comprehension calls \<open>_handle_respawn\<close> for every
  vessel of \<open>self.TSs\<close> in turn, and only afterwards assigns the new vessels and flags.
  Every call therefore sees the environment with the vessel list as it was before the
  comprehension.
\<close>

fun respawn_each ::
  "CS2_ext \<Rightarrow> FossenEnv \<Rightarrow> TS_draw list \<Rightarrow> CyberShipII list
     \<Rightarrow> (py_error + (CyberShipII \<times> bool) list \<times> TS_draw list) option" where
  "respawn_each X env ds [] = Some (Inr ([], ds))"
| "respawn_each X env ds (TSv # rest) =
     (case handle_respawn X env ds TSv True False False of
        None \<Rightarrow> None
      | Some (Inl e) \<Rightarrow> Some (Inl e)
      | Some (Inr (res, ds')) \<Rightarrow>
          (case respawn_each X env ds' rest of
             None \<Rightarrow> None
           | Some (Inl e) \<Rightarrow> Some (Inl e)
           | Some (Inr (ress, ds'')) \<Rightarrow> Some (Inr (res # ress, ds''))))"

definition step_respawn ::
  "CS2_ext \<Rightarrow> FossenEnv \<Rightarrow> TS_draw list \<Rightarrow> (py_error + FossenEnv \<times> TS_draw list) option" where
  "step_respawn X env ds =
     (if length (TSs env) > 0 then
        (case respawn_each X env ds (TSs env) of
           None \<Rightarrow> None
         | Some (Inl e) \<Rightarrow> Some (Inl e)
         | Some (Inr (ress, ds')) \<Rightarrow>
             Some (Inr (env\<lparr>TSs := map fst ress, respawn_flags := map snd ress\<rparr>, ds')))
      else Some (Inr (env, ds)))"

subsection \<open>Observation\<close>

text \<open>
  An entry of the observation vector is a number or \<open>np.nan\<close>. A quotient of two numpy
  scalars does not raise at a zero divisor; the entries are modelled with HOL's division,
  and no statement below depends on their value at a zero divisor.
\<close>

datatype obs = Val real | NaN

definition argsort :: "real list \<Rightarrow> nat list" where
  \<comment> \<open>\<open>np.argsort\<close>: the indices in ascending order of the values (ties in index order)\<close>
  "argsort xs = map snd (sort_key fst (zip xs [0..<length xs]))"

definition np_pad_right :: "obs list \<Rightarrow> int \<Rightarrow> py_error + obs list" where
  \<comment> \<open>\<open>np.pad(a, (0, k), 'constant', constant_values=np.nan)\<close>; a negative \<open>k\<close> raises\<close>
  "np_pad_right a k = (if k < 0 then Inl ValueError else Inr (a @ replicate (nat k) NaN))"

definition state_OS :: "FossenEnv \<Rightarrow> py_error + obs list" where
  "state_OS env =
     (let head0 = heading (OS env)
      in err_bind (if cnt_approach env = ''tau''
                   then Inr (tau_cnt_r (OS env) / tau_cnt_r_max (OS env))
                   else if cnt_approach env = ''f123''
                   then (case f23_sum (OS env) of
                           None \<Rightarrow> Inl TypeError
                         | Some f \<Rightarrow> Inr (snd (snd (tau (OS env))) / f))
                   else Inl UnboundLocalError) (\<lambda>f_info.
           case nu (OS env) of (u, v, r) \<Rightarrow>
             Inr [Val u, Val v, Val r,
                  Val (angle_to_pi head0 / pi),
                  Val (snd (snd (nu_dot (OS env)))),
                  Val (snd (snd (eta_dot (OS env)))),
                  Val f_info]))"

definition state_goal :: "FossenEnv \<Rightarrow> obs list" where
  "state_goal env =
     (let N0 = pos_N (OS env); E0 = pos_E (OS env); head0 = heading (OS env);
          OS_goal_ED = ED N0 E0 (goal_N env) (goal_E env) True
      in [Val (angle_to_pi (bng_rel N0 E0 (goal_N env) (goal_E env) head0 True) / pi),
          Val (OS_goal_ED / env_E_max env)])"

text \<open>
  The loop over \<open>enumerate(self.TSs)\<close>: for every vessel in sight its row of
  \<open>num_obs_TS\<close> features and its risk ratio. \<open>TS_in_sight\<close> is the test of the loop
  body, \<open>TS_risk\<close> the risk ratio it stores and \<open>TS_obs\<close> the row it appends.
\<close>

definition TS_in_sight :: "FossenEnv \<Rightarrow> CyberShipII \<Rightarrow> bool" where
  "TS_in_sight env TSv =
     (ED (pos_N (OS env)) (pos_E (OS env)) (pos_N TSv) (pos_E TSv) True \<le> sight env)"

definition TS_risk :: "FossenEnv \<Rightarrow> CyberShipII \<Rightarrow> real" where
  "TS_risk env TSv =
     ED (pos_N (OS env)) (pos_E (OS env)) (pos_N TSv) (pos_E TSv) True / get_ship_domain (OS env) TSv"

definition TS_obs :: "FossenEnv \<Rightarrow> nat \<Rightarrow> CyberShipII \<Rightarrow> real list" where
  "TS_obs env TS_idx TSv =
     (let N0 = pos_N (OS env); E0 = pos_E (OS env); head0 = heading (OS env);
          N = pos_N TSv; E = pos_E TSv; headTS = heading TSv;
          ED_OS_TS = ED N0 E0 N E True;
          ED_OS_TS_norm = ED_OS_TS / env_E_max env;
          bng_rel_TS = angle_to_pi (bng_rel N0 E0 N E head0 True) / pi;
          C_TS = angle_to_pi (head_inter head0 headTS) / pi;
          V_TS = CS2_get_V TSv;
          sigma_TS = real (TS_COLREGs env ! TS_idx);
          inside_domain = (if ED_OS_TS \<le> get_ship_domain (OS env) TSv then 1 else 0)
      in [ED_OS_TS_norm, bng_rel_TS, C_TS, V_TS, sigma_TS, inside_domain])"

fun TS_rows :: "FossenEnv \<Rightarrow> nat \<Rightarrow> CyberShipII list \<Rightarrow> py_error + (real list \<times> real) list" where
  "TS_rows env TS_idx [] = Inr []"
| "TS_rows env TS_idx (TSv # rest) =
     (if TS_in_sight env TSv then
        if TS_idx < length (TS_COLREGs env) then
          err_bind (TS_rows env (Suc TS_idx) rest) (\<lambda>rows.
            Inr ((TS_obs env TS_idx TSv, TS_risk env TSv) # rows))
        else Inl IndexError
      else TS_rows env (Suc TS_idx) rest)"

text \<open>The block of the observation that describes the target ships.\<close>

definition state_TSs :: "FossenEnv \<Rightarrow> py_error + obs list" where
  "state_TSs env =
     err_bind (TS_rows env 0 (TSs env)) (\<lambda>rows.
       if length rows = 0 then
         (if state_design env = ''RecDQN''
          then Inr (replicate (num_obs_TS env * N_TSs_max env) NaN)
          else if state_design env = ''maxRisk''
          then Inr (replicate (num_obs_TS env) (Val 0))
          else Inr [])
       else
         let order = rev (argsort (map snd rows));
             sorted_rows = map (\<lambda>idx. fst (rows ! idx)) order
         in if state_design env = ''RecDQN'' then
              let flat = map Val (concat sorted_rows);
                  desired_length = num_obs_TS env * N_TSs_max env
              in np_pad_right flat (int desired_length - int (length flat))
            else if state_design env = ''maxRisk'' then
              Inr (map Val (last sorted_rows))
            else Inl ValueError)"

definition set_state :: "FossenEnv \<Rightarrow> py_error + obs list" where
  \<comment> \<open>the value assigned to \<open>self.state\<close>\<close>
  "set_state env =
     err_bind (state_OS env) (\<lambda>s_OS.
     err_bind (state_TSs env) (\<lambda>s_TSs.
       Inr (s_OS @ state_goal env @ s_TSs)))"

subsection \<open>Reward\<close>

text \<open>
  The loop over \<open>enumerate(self.TSs)\<close> of \<open>_calculate_reward\<close>, with the running values
  of \<open>r_coll\<close> and \<open>r_COLREG\<close>.
\<close>

fun reward_loop ::
  "FossenEnv \<Rightarrow> nat \<Rightarrow> CyberShipII list \<Rightarrow> real \<times> real \<Rightarrow> py_error + real \<times> real" where
  "reward_loop env TS_idx [] acc = Inr acc"
| "reward_loop env TS_idx (TSv # rest) acc =
     (case acc of (r_coll0, r_COLREG0) \<Rightarrow>
        let N0 = pos_N (OS env); E0 = pos_E (OS env);
            ED_TS = ED N0 E0 (pos_N TSv) (pos_E TSv) True;
            r_coll1 = (if ED_TS \<le> coll_dist env then r_coll0 - 10 else r_coll0)
        in if \<not> TS_idx < length (respawn_flags env) then Inl IndexError
           else if \<not> respawn_flags env ! TS_idx then
             (if ED_TS \<le> sight env
                 \<and> tcpa N0 E0 (pos_N TSv) (pos_E TSv) (CS2_get_course (OS env)) (CS2_get_course TSv)
                          (CS2_get_V (OS env)) (CS2_get_V TSv) \<ge> 0
              then
                if \<not> TS_idx < length (TS_COLREGs env) then Inl IndexError
                else if TS_COLREGs env ! TS_idx \<in> {1, 2} \<and> nu2 (OS env) < 0
                then reward_loop env (Suc TS_idx) rest (r_coll1, r_COLREG0 - 3)
                else if TS_COLREGs env ! TS_idx \<in> {3} \<and> nu2 (OS env) > 0
                then reward_loop env (Suc TS_idx) rest (r_coll1, r_COLREG0 - 3)
                else reward_loop env (Suc TS_idx) rest (r_coll1, r_COLREG0)
              else reward_loop env (Suc TS_idx) rest (r_coll1, r_COLREG0))
           else reward_loop env (Suc TS_idx) rest (r_coll1, r_COLREG0))"

definition calculate_reward ::
  "FossenEnv \<Rightarrow> real \<Rightarrow> real \<Rightarrow> real \<Rightarrow> real \<Rightarrow> real \<Rightarrow> py_error + FossenEnv" where
  "calculate_reward env w_dist w_head w_coll w_COLREG w_comf =
     (let N0 = pos_N (OS env); E0 = pos_E (OS env); head0 = heading (OS env);
          OS_goal_ED = ED N0 E0 (goal_N env) (goal_E env) True;
          r_dist0 = - OS_goal_ED / env_E_max env;
          r_head0 = - 3 * \<bar>angle_to_pi (bng_rel N0 E0 (goal_N env) (goal_E env) head0 True)\<bar> / pi
      in err_bind (reward_loop env 0 (TSs env) (0, 0)) (\<lambda>(r_coll0, r_COLREG0).
           let r_comf0 = - 10 * \<bar>nu2 (OS env)\<bar> ^ 2
           in Inr (env\<lparr>r_dist := r_dist0, r_head := r_head0, r_coll := r_coll0,
                       r_COLREG := r_COLREG0, r_comf := r_comf0,
                       env_r := w_dist * r_dist0 + w_head * r_head0 + w_coll * r_coll0
                                + w_COLREG * r_COLREG0 + w_comf * r_comf0\<rparr>)))"

section \<open>HHOS\_PathPlanning\_Env: the path-planning environment\<close>

text \<open>
  The parent class \<open>HHOS_Env\<close> is not among the sources. The record holds the attributes
  that the methods below read and write; a field that another record of this theory
  already names carries the prefix \<open>pp_\<close> (\<open>pp_OS\<close> is \<open>self.OS\<close>). The target ships
  are \<open>KVLCC2\<close> vessels with the flags \<open>rev_dir\<close> and \<open>speedy\<close>. The attributes
  \<open>r_comf\<close> and \<open>r_speed\<close> are \<open>None\<close> as long as no method has set them. The function
  \<open>get_ship_domain\<close> of \<open>HHOS_Env\<close> (with the domain parameters of the own ship
  applied) is a parameter of the methods that call it, as are the LiDAR features of the
  observation.
\<close>

record HHOS_TS = KVLCC2 +
  rev_dir :: bool
  speedy :: bool

record HHOS_PathPlanning_Env =
  pp_state_design :: string
  thrust_control_planner :: bool
  pp_N_TSs_max :: nat
  pp_num_obs_TS :: nat
  pp_delta_t :: real
  n_loops :: int
  w_ye :: real
  w_ce :: real
  w_coll :: real
  w_comf :: real
  w_speed :: real
  d_head_scale :: real
  surge_scale :: real
  surge_min :: real
  surge_max :: real
  desired_V :: real
  pp_max_episode_steps :: nat
  pp_OS :: KVLCC2
  pp_TSs :: "HHOS_TS list"
  glo_ye :: real
  glo_pi_path :: real
  depth_H :: real
  critical_depth :: real
  r_ye :: real
  r_ce :: real
  pp_r_comf :: "real option"
  r_speed :: "real option"
  pp_r_coll :: real
  pp_r :: real

definition py_int :: "real \<Rightarrow> int" where
  \<comment> \<open>\<open>int(x)\<close> of a float: truncation towards zero\<close>
  "py_int x = (if 0 \<le> x then \<lfloor>x\<rfloor> else \<lceil>x\<rceil>)"

definition HHOS_PathPlanning_init ::
  "HHOS_PathPlanning_Env \<Rightarrow> string \<Rightarrow> py_error + HHOS_PathPlanning_Env" where
  \<comment> \<open>\<open>__init__\<close> after the call of the parent's constructor, whose result is the first
      argument\<close>
  "HHOS_PathPlanning_init base state_design0 =
     (if state_design0 \<notin> {''recursive'', ''conventional''} then Inl AssertionError
      else err_bind (py_div 60 (pp_delta_t base)) (\<lambda>q.
        Inr (base\<lparr>pp_state_design := state_design0, n_loops := py_int q, pp_num_obs_TS := 6,
                   d_head_scale := dtr 10, surge_scale := 0.5, surge_min := 0.1,
                   surge_max := 5, desired_V := 3, pp_max_episode_steps := 50\<rparr>)))"

subsection \<open>Observation of the target ships\<close>

definition pp_TS_row ::
  "(KVLCC2 \<Rightarrow> HHOS_TS \<Rightarrow> real) \<Rightarrow> HHOS_PathPlanning_Env \<Rightarrow> HHOS_TS \<Rightarrow> real list" where
  "pp_TS_row domain env TSv =
     (let N0 = pos_N (pp_OS env); E0 = pos_E (pp_OS env); head0 = heading (pp_OS env);
          N = pos_N TSv; E = pos_E TSv; headTS = heading TSv;
          D = domain (pp_OS env) TSv;
          ED_OS_TS = (ED N0 E0 N E True - D) / (20 * Lpp kvlcc2_full);
          closeness = np_clip (1 - ED_OS_TS) 0 1;
          bng_rel_TS = bng_rel N0 E0 N E head0 False / pi;
          C_TS_path = angle_to_pi (headTS - glo_pi_path env) / pi;
          V_TS = (if thrust_control_planner env then get_V kvlcc2_full TSv - desired_V env
                  else get_V kvlcc2_full TSv / desired_V env);
          TS_dir = (if rev_dir TSv then - 1 else 1);
          TS_speedy = (if speedy TSv then 1 else - 1)
      in [closeness, bng_rel_TS, C_TS_path, V_TS, TS_dir, TS_speedy])"

text \<open>
  The block of the observation that describes the target ships. The padding loop
  \<open>while len(state_TSs) != self.N_TSs_max\<close> does not end when there are more vessels
  than slots (the result is \<open>None\<close>); \<open>np.hstack\<close> raises on an empty list of rows.
\<close>

definition pp_state_TSs ::
  "(KVLCC2 \<Rightarrow> HHOS_TS \<Rightarrow> real) \<Rightarrow> HHOS_PathPlanning_Env \<Rightarrow> (py_error + real list) option" where
  "pp_state_TSs domain env =
     (let rows = map (pp_TS_row domain env) (pp_TSs env)
      in if pp_state_design env = ''recursive'' then Some (Inl NotImplementedError)
         else if length rows > pp_N_TSs_max env then None
         else
           let padded = rows @ replicate (pp_N_TSs_max env - length rows) [0, - 1, - 1, 0, - 1, - 1];
               sorted_rows = sort_key (\<lambda>x. x ! 0) padded
           in if sorted_rows = [] then Some (Inl ValueError)
              else Some (Inr (concat sorted_rows)))"

definition pp_set_state ::
  "(KVLCC2 \<Rightarrow> HHOS_TS \<Rightarrow> real) \<Rightarrow> real list \<Rightarrow> HHOS_PathPlanning_Env
     \<Rightarrow> (py_error + real list) option" where
  \<comment> \<open>the value assigned to \<open>self.state\<close>; the second argument is \<open>state_LiDAR\<close>\<close>
  "pp_set_state domain state_LiDAR env =
     (let u = nu0 (pp_OS env);
          state_OS0 = (if thrust_control_planner env
                       then [u - desired_V env,
                             angle_to_pi (heading (pp_OS env) - glo_pi_path env) / pi]
                       else [u / desired_V env,
                             angle_to_pi (heading (pp_OS env) - glo_pi_path env) / pi]);
          state_path = [glo_ye env / Lpp kvlcc2_full]
      in case pp_state_TSs domain env of
           None \<Rightarrow> None
         | Some (Inl e) \<Rightarrow> Some (Inl e)
         | Some (Inr s_TSs) \<Rightarrow> Some (Inr (state_OS0 @ state_path @ state_LiDAR @ s_TSs)))"

subsection \<open>Reward\<close>

definition pp_r_coll_TS ::
  "(KVLCC2 \<Rightarrow> HHOS_TS \<Rightarrow> real) \<Rightarrow> HHOS_PathPlanning_Env \<Rightarrow> real \<Rightarrow> HHOS_TS \<Rightarrow> real" where
  \<comment> \<open>one pass of the loop over the target ships: the new value of \<open>self.r_coll\<close>\<close>
  "pp_r_coll_TS domain env r_coll0 TSv =
     (let N0 = pos_N (pp_OS env); E0 = pos_E (pp_OS env);
          N1 = pos_N TSv; E1 = pos_E TSv; head1 = heading TSv;
          D = domain (pp_OS env) TSv;
          ED_OS_TS = ED N0 E0 N1 E1 True;
          r1 = (if ED_OS_TS \<le> D then r_coll0 - 10 else r_coll0 - exp (- (ED_OS_TS - D) / 200));
          bng_rel_TS_pers = bng_rel N1 E1 N0 E0 head1 True
      in if speedy TSv then
           (if dtr 180 \<le> bng_rel_TS_pers \<and> bng_rel_TS_pers \<le> dtr 270
               \<and> ED_OS_TS \<le> 10 * Lpp kvlcc2_full then r1 - 10 else r1)
         else if rev_dir TSv then
           (if dtr 0 \<le> bng_rel_TS_pers \<and> bng_rel_TS_pers \<le> dtr 90
               \<and> ED_OS_TS \<le> 10 * Lpp kvlcc2_full then r1 - 10 else r1)
         else
           (if dtr 90 \<le> bng_rel_TS_pers \<and> bng_rel_TS_pers \<le> dtr 180 then
              (let l = (10 - 5 / pi * bng_rel_TS_pers) * Lpp kvlcc2_full
               in if ED_OS_TS \<le> l then r1 - 10 else r1)
            else r1))"

definition np_sum :: "real list \<Rightarrow> real" where
  "np_sum xs = sum_list xs"

definition pp_calculate_reward ::
  "(KVLCC2 \<Rightarrow> HHOS_TS \<Rightarrow> real) \<Rightarrow> HHOS_PathPlanning_Env \<Rightarrow> real list
     \<Rightarrow> py_error + HHOS_PathPlanning_Env" where
  "pp_calculate_reward domain env a =
     (let k_ye = 0.05;
          r_ye0 = exp (- k_ye * \<bar>glo_ye env\<bar>);
          r_ce0 = (if \<bar>angle_to_pi (heading (pp_OS env) - glo_pi_path env)\<bar> \<ge> pi / 2
                   then - 10 else 0)
      in if thrust_control_planner env \<and> \<not> 1 < length a then Inl IndexError
         else
           let r_comf0 = (if thrust_control_planner env then Some (- ((a ! 1) ^ 2)) else pp_r_comf env);
               r_speed0 = (if thrust_control_planner env
                           then Some (max (- ((nu0 (pp_OS env) - desired_V env) ^ 2)) (- 1))
                           else r_speed env);
               r_coll1 = fold (\<lambda>TSv r. pp_r_coll_TS domain env r TSv) (pp_TSs env) 0;
               r_coll2 = (if depth_H env \<le> critical_depth env then r_coll1 - 10 else r_coll1);
               weights = [w_ye env, w_ce env, w_coll env]
                         @ (if thrust_control_planner env then [w_comf env, w_speed env] else []);
               rews = [r_ye0, r_ce0, r_coll2]
                      @ (if thrust_control_planner env then [the r_comf0, the r_speed0] else [])
           in Inr (env\<lparr>r_ye := r_ye0, r_ce := r_ce0, pp_r_comf := r_comf0, r_speed := r_speed0,
                       pp_r_coll := r_coll2,
                       pp_r := (if np_sum weights \<noteq> 0
                                then np_sum (map2 (\<lambda>w x. w * x) weights rews) / np_sum weights
                                else 0)\<rparr>))"

section \<open>The agents' constructors\<close>

text \<open>
  The checks of \<open>CNN_DQN_Agent.__init__\<close> and \<open>TQC_Agent.__init__\<close> in the order of the
  source; what follows them (buffers, networks, optimizers) belongs to classes that are
  not among the sources, and the result \<open>Inr ()\<close> stands for reaching that part. A path
  to a weights file or prior is a string; \<open>None\<close> is \<open>None\<close>.
\<close>

datatype py_seq = Tuple "int list" | PyList "int list"

definition seq_len :: "py_seq \<Rightarrow> nat" where
  "seq_len q = (case q of Tuple xs \<Rightarrow> length xs | PyList xs \<Rightarrow> length xs)"

definition is_tuple :: "py_seq \<Rightarrow> bool" where
  "is_tuple q = (case q of Tuple xs \<Rightarrow> True | PyList xs \<Rightarrow> False)"

definition CNN_DQN_Agent_init ::
  "string \<Rightarrow> py_seq \<Rightarrow> string option \<Rightarrow> bool \<Rightarrow> string option \<Rightarrow> int \<Rightarrow> string
     \<Rightarrow> py_error + unit" where
  "CNN_DQN_Agent_init mode state_shape dqn_weights input_norm input_norm_prior n_steps device =
     (if mode \<notin> {''train'', ''test''} then Inl AssertionError
      else if mode = ''test'' \<and> dqn_weights = None then Inl AssertionError
      else if \<not> (seq_len state_shape = 3 \<and> is_tuple state_shape) then Inl AssertionError
      else if \<not> n_steps \<ge> 1 then Inl AssertionError
      else if device \<notin> {''cpu'', ''cuda''} then Inl AssertionError
      else if input_norm \<and> mode = ''test'' \<and> input_norm_prior = None then Inl AssertionError
      else Inr ())"

text \<open>
  \<open>TQC_Agent.__init__\<close> calls \<open>torch.zeros(..., device=device)\<close> before it asserts the
  device: a string that torch does not accept as a device raises \<open>RuntimeError\<close> there.
  Which strings torch accepts is the first argument.
\<close>

definition TQC_Agent_init ::
  "(string \<Rightarrow> bool) \<Rightarrow> string \<Rightarrow> string option \<Rightarrow> string option \<Rightarrow> string
     \<Rightarrow> py_error + unit" where
  "TQC_Agent_init torch_device mode actor_weights critic_weights device =
     (if mode \<notin> {''train'', ''test''} then Inl AssertionError
      else if mode = ''test'' \<and> (actor_weights = None \<or> critic_weights = None) then Inl AssertionError
      else if \<not> torch_device device then Inl RuntimeError
      else if device \<notin> {''cpu'', ''cuda''} then Inl AssertionError
      else Inr ())"

section \<open>Concrete objects for closed statements\<close>

text \<open>
  \<open>ex_CS2\<close> is one instance of the parameters \<open>CS2_ext\<close>: a constructor that stores its
  arguments, and linear thrust-speed maps. \<open>ex_ship N E psi u\<close> is a vessel at the
  position (N, E) with heading \<open>psi\<close> and surge speed \<open>u\<close>. \<open>env_after_reset\<close> extends
  a configuration by a goal, an own ship and target ships.
\<close>

definition ex_ship :: "real \<Rightarrow> real \<Rightarrow> real \<Rightarrow> real \<Rightarrow> CyberShipII" where
  "ex_ship N E psi u =
     \<lparr> delta_t = 0.5, N_max = 200, E_max = 200, action = 0,
       eta = (N, E, psi), nu = (u, 0, 0), nu_dot = (0, 0, 0),
       eta_dot = (0, 0, 0), tau = (0, 0, 0), tau_u = Some 3, f2 = None, f3 = None,
       f23_sum = None, tau_cnt_r = 0, tau_cnt_r_max = 1, ship_length = 1.255 \<rparr>"

definition ex_CS2 :: CS2_ext where
  "ex_CS2 =
     \<lparr> CS2_new = (\<lambda>a.
         \<lparr> delta_t = arg_delta_t a, N_max = arg_N_max a, E_max = arg_E_max a, action = 0,
           eta = (arg_N_init a, arg_E_init a, arg_psi_init a),
           nu = (arg_u_init a, arg_v_init a, arg_r_init a), nu_dot = (0, 0, 0),
           eta_dot = (0, 0, 0), tau = (0, 0, 0), tau_u = arg_tau_u a, f2 = arg_f2 a,
           f3 = arg_f2 a, f23_sum = arg_f23_sum a, tau_cnt_r = 0, tau_cnt_r_max = 1,
           ship_length = 1.255 \<rparr>),
       u_from_tau_u = (\<lambda>s t. t / 2),
       tau_u_from_u = (\<lambda>s u. 2 * u),
       set_tau = (\<lambda>s. s) \<rparr>"

definition env_after_reset ::
  "FossenEnv_config \<Rightarrow> real \<times> real \<Rightarrow> CyberShipII \<Rightarrow> CyberShipII list \<Rightarrow> FossenEnv" where
  "env_after_reset cfg goal0 OS0 TSs0 =
     FossenEnv_config.extend cfg
       (FossenEnv.fields goal0 OS0 TSs0 (replicate (length TSs0) 0) [] (replicate (length TSs0) False))"

definition ex_env :: "string \<Rightarrow> CyberShipII \<Rightarrow> CyberShipII list \<Rightarrow> FossenEnv" where
  \<comment> \<open>the default configuration with the given state design, the goal at N = 180, E = 100\<close>
  "ex_env design OS0 TSs0 =
     env_after_reset (projr (FossenEnv_init 3 False False ''tau'' design False)) (180, 100) OS0 TSs0"

definition ex_draw :: "real \<Rightarrow> TS_draw" where
  \<comment> \<open>an overtaking draw: hit time 60 s, intersection angle 0, speed fraction \<open>w\<close>\<close>
  "ex_draw w =
     \<lparr> w_thrust = 1 / 2, w_N_init = 1 / 2, w_E_init = 1 / 2, w_psi_init = 1 / 2,
       d_COLREG_s = 5, w_t_hit = 0, w_C_TS_s = 1 / 2, w_VTS = w \<rparr>"

definition ex_pp_env :: HHOS_PathPlanning_Env where
  "ex_pp_env =
     \<lparr> pp_state_design = ''conventional'', thrust_control_planner = False, pp_N_TSs_max = 2,
       pp_num_obs_TS = 6, pp_delta_t = 5, n_loops = 12,
       w_ye = 1, w_ce = 1, w_coll = 2, w_comf = 0, w_speed = 0,
       d_head_scale = dtr 10, surge_scale = 0.5, surge_min = 0.1, surge_max = 5, desired_V = 3,
       pp_max_episode_steps = 50,
       pp_OS = KVLCC2_init 0 0 0 3 0 0 1 5 1000 1000, pp_TSs = [],
       glo_ye = 0, glo_pi_path = 0, depth_H = 100, critical_depth = 30,
       r_ye = 0, r_ce = 0, pp_r_comf = None, r_speed = None, pp_r_coll = 0, pp_r = 0 \<rparr>"

section \<open>Verification\<close>

lemma err_bind_simps [simp]: "err_bind (Inr x) f = f x" "err_bind (Inl e) f = Inl e"
  by (simp_all add: err_bind_def)

lemma py_sqrt_nonneg: "0 \<le> x \<Longrightarrow> py_sqrt x = Inr (sqrt x)"
  by (simp add: py_sqrt_def)

lemma py_div_nonzero: "b \<noteq> 0 \<Longrightarrow> py_div a b = Inr (a / b)"
  by (simp add: py_div_def)

lemma angle_to_2pi_range: "0 \<le> angle_to_2pi a \<and> angle_to_2pi a < 2 * pi"
proof -
  define q where "q = a / (2 * pi)"
  have a: "a = 2 * pi * q" by (simp add: q_def)
  have f: "of_int \<lfloor>q\<rfloor> \<le> q" "q < of_int \<lfloor>q\<rfloor> + 1" by linarith+
  have "angle_to_2pi a = 2 * pi * (q - of_int \<lfloor>q\<rfloor>)"
    unfolding angle_to_2pi_def q_def[symmetric] by (simp add: a algebra_simps)
  moreover have "0 \<le> 2 * pi * (q - of_int \<lfloor>q\<rfloor>)" using f by simp
  moreover have "2 * pi * (q - of_int \<lfloor>q\<rfloor>) < 2 * pi * 1"
  proof (rule mult_strict_left_mono)
    show "q - of_int \<lfloor>q\<rfloor> < 1" using f by linarith
    show "0 < 2 * pi" by simp
  qed
  ultimately show ?thesis by simp
qed

lemma angle_to_2pi_eq: "0 \<le> a \<Longrightarrow> a < 2 * pi \<Longrightarrow> angle_to_2pi a = a"
proof -
  assume a: "0 \<le> a" "a < 2 * pi"
  have "\<lfloor>a / (2 * pi)\<rfloor> = 0"
    using a by (simp add: floor_eq_iff)
  then show ?thesis by (simp add: angle_to_2pi_def)
qed

lemma angle_to_2pi_minus: "0 < a \<Longrightarrow> a \<le> 2 * pi \<Longrightarrow> angle_to_2pi (- a) = 2 * pi - a"
proof -
  assume a: "0 < a" "a \<le> 2 * pi"
  have "\<lfloor>- a / (2 * pi)\<rfloor> = - 1"
    using a by (simp add: floor_eq_iff field_simps)
  then show ?thesis by (simp add: angle_to_2pi_def)
qed

lemma mmg_preparation_value:
  "mmg_preparation P u vm r =
     Inr (if sqrt (u ^ 2 + vm ^ 2) = 0 then (0, 0, 0, 0)
          else (sqrt (u ^ 2 + vm ^ 2), drift_angle vm u, vm / sqrt (u ^ 2 + vm ^ 2),
                r * Lpp P / sqrt (u ^ 2 + vm ^ 2)))"
  by (simp add: mmg_preparation_def py_sqrt_nonneg py_div_nonzero)

lemma kvlcc2_nonzero: "Lpp kvlcc2_full \<noteq> 0" "D_p kvlcc2_full \<noteq> 0"
  by (simp_all add: kvlcc2_full_def)

lemma mmg_propeller_total:
  "case mmg_propeller kvlcc2_full u beta r_dash n of
     Inl e \<Rightarrow> False
   | Inr (w_P, J, K_T, X_P) \<Rightarrow>
       K_T = k_0 kvlcc2_full + k_1 kvlcc2_full * J + k_2 kvlcc2_full * J ^ 2"
  by (cases "n = 0") (simp_all add: mmg_propeller_def py_div_def Let_def kvlcc2_nonzero)

lemma quadratic_bound:
  fixes J x :: real
  assumes "0 \<le> x - (5/2) * J + 25/16" "0 < x"
  shows "0 \<le> 2 * x + 8 * (2931 / 10000 - 2753 / 10000 * J - 1359 / 10000 * x)"
  using assms by argo

lemma inner_sqrt_arg_nonneg:
  fixes J K_T :: real
  assumes "J \<noteq> 0"
    and "K_T = k_0 kvlcc2_full + k_1 kvlcc2_full * J + k_2 kvlcc2_full * J ^ 2"
  shows "0 \<le> 1 + 8 * K_T / (pi * J ^ 2)"
proof -
  have K: "K_T = 2931 / 10000 - 2753 / 10000 * J - 1359 / 10000 * J ^ 2"
    using assms(2) by (simp add: kvlcc2_full_def)
  have J2: "0 < J ^ 2" using assms by simp
  have p: "0 < pi * J ^ 2" using J2 by simp
  have "0 \<le> (J - 5/4) ^ 2" by simp
  moreover have "(J - 5/4) ^ 2 = J ^ 2 - (5/2) * J + 25/16"
    by (simp add: power2_eq_square algebra_simps)
  ultimately have s1: "0 \<le> J ^ 2 - (5/2) * J + 25/16" by simp
  have q: "0 \<le> 2 * J ^ 2 + 8 * K_T"
    unfolding K using quadratic_bound [OF s1 J2] .
  have "2 * J ^ 2 \<le> pi * J ^ 2" using pi_ge_two J2 by simp
  then have "0 \<le> pi * J ^ 2 + 8 * K_T"
    using q by linarith
  then have "0 \<le> (pi * J ^ 2 + 8 * K_T) / (pi * J ^ 2)"
    using p by simp
  also have "\<dots> = 1 + 8 * K_T / (pi * J ^ 2)"
    using p assms(1) by (simp add: add_divide_distrib)
  finally show ?thesis .
qed

lemma isl_err_bind: "\<not> isl m \<Longrightarrow> (\<And>x. \<not> isl (f x)) \<Longrightarrow> \<not> isl (err_bind m f)"
  by (cases m) (simp_all add: err_bind_def)

lemma not_isl_ex: "\<not> isl m \<Longrightarrow> \<exists>x. m = Inr x"
  by (cases m) simp_all

lemma mmg_u_R_total:
  assumes "K_T = k_0 kvlcc2_full + k_1 kvlcc2_full * J + k_2 kvlcc2_full * J ^ 2"
  shows "\<not> isl (mmg_u_R kvlcc2_full u w_P J K_T)"
proof (cases "J = 0")
  case True
  then show ?thesis by (simp add: mmg_u_R_def)
next
  case False
  have a: "0 \<le> 1 + 8 * K_T / (pi * J ^ 2)"
    using inner_sqrt_arg_nonneg [OF False assms] .
  have p: "pi * J ^ 2 \<noteq> 0" using False by simp
  have b: "0 \<le> eta_param kvlcc2_full * (1 + kappa kvlcc2_full * (sqrt (1 + 8 * K_T / (pi * J ^ 2)) - 1)) ^ 2
              + (1 - eta_param kvlcc2_full)"
    by (intro add_nonneg_nonneg mult_nonneg_nonneg zero_le_power2) (simp_all add: kvlcc2_full_def)
  show ?thesis
    using False
    by (simp add: mmg_u_R_def py_div_nonzero [OF p] py_sqrt_nonneg [OF a] py_sqrt_nonneg [OF b])
qed

lemma mmg_rudder_total:
  assumes "K_T = k_0 kvlcc2_full + k_1 kvlcc2_full * J + k_2 kvlcc2_full * J ^ 2"
  shows "\<not> isl (mmg_rudder kvlcc2_full u U beta r_dash ra w_P J K_T)"
proof -
  obtain x where x: "mmg_u_R kvlcc2_full u w_P J K_T = Inr x"
    using mmg_u_R_total [OF assms] not_isl_ex by blast
  show ?thesis
    by (simp add: mmg_rudder_def x Let_def py_sqrt_nonneg)
qed

lemma mmg_currents_none:
  "mmg_currents P u vm p fp None = Inr (0, 0, 0)"
  "mmg_currents P u vm p fp (Some 0) = Inr (0, 0, 0)"
  by (simp_all add: mmg_currents_def)

lemma mmg_currents_TypeError:
  "fv \<noteq> 0 \<Longrightarrow> mmg_currents P u vm p fp (Some fv) = Inl TypeError"
  by (simp add: mmg_currents_def self_call1_def Let_def)

lemma kvlcc2_denominators:
  "hull_m kvlcc2_full + m_x_dash kvlcc2_full * (0.5 * rho kvlcc2_full * Lpp kvlcc2_full ^ 2 * hull_d kvlcc2_full) \<noteq> 0"
  "I_zG kvlcc2_full + J_z_dash kvlcc2_full * (0.5 * rho kvlcc2_full * Lpp kvlcc2_full ^ 4 * hull_d kvlcc2_full)
     + x_G kvlcc2_full ^ 2 * hull_m kvlcc2_full \<noteq> 0"
  "hull_m kvlcc2_full + m_y_dash kvlcc2_full * (0.5 * rho kvlcc2_full * Lpp kvlcc2_full ^ 2 * hull_d kvlcc2_full)
     - x_G kvlcc2_full ^ 2 * hull_m kvlcc2_full ^ 2
       / (I_zG kvlcc2_full + J_z_dash kvlcc2_full * (0.5 * rho kvlcc2_full * Lpp kvlcc2_full ^ 4 * hull_d kvlcc2_full)
          + x_G kvlcc2_full ^ 2 * hull_m kvlcc2_full) \<noteq> 0"
  by (simp_all add: kvlcc2_full_def power2_eq_square power4_eq_xxxx)

lemma mmg_solve_total: "\<not> isl (mmg_solve kvlcc2_full u vm r X Y N_M)"
  using kvlcc2_denominators
  by (simp add: mmg_solve_def py_div_def Let_def)

lemma mmg_dynamics_total:
  assumes "fv = None \<or> fv = Some 0"
  shows "\<not> isl (mmg_dynamics kvlcc2_full v p ra n fp fv)"
proof -
  obtain u v' r where v: "v = (u, v', r)" by (cases v) auto
  define vm where "vm = vm_from_v_r kvlcc2_full v' r"
  obtain U beta v_dash r_dash where
    prep: "mmg_preparation kvlcc2_full u vm r = Inr (U, beta, v_dash, r_dash)"
    using mmg_preparation_value [of kvlcc2_full u vm r] by (metis prod_cases4)
  obtain w_P J K_T X_P where
    prpl: "mmg_propeller kvlcc2_full u beta r_dash n = Inr (w_P, J, K_T, X_P)"
    and KT: "K_T = k_0 kvlcc2_full + k_1 kvlcc2_full * J + k_2 kvlcc2_full * J ^ 2"
    using mmg_propeller_total [of u beta r_dash n]
    by (auto split: sum.splits)
  obtain X_R Y_R N_R where
    rud: "mmg_rudder kvlcc2_full u U beta r_dash ra w_P J K_T = Inr (X_R, Y_R, N_R)"
    using mmg_rudder_total [OF KT] not_isl_ex by (metis prod_cases3)
  have cur: "mmg_currents kvlcc2_full u vm p fp fv = Inr (0, 0, 0)"
    using assms mmg_currents_none by auto
  show ?thesis
    unfolding mmg_dynamics_def v
    by (simp add: vm_def[symmetric] Let_def prep prpl rud cur mmg_solve_total)
qed

lemma upd_dynamics_value:
  assumes "mmg_dynamics kvlcc2_full (nu s) (heading s) (rud_angle s) (nps s) 0 (Some 0) = Inr nd"
  shows "upd_dynamics s =
     Inr (s\<lparr>nu_dot := nd,
            nu := vec_add (nu s) (vec_scale nd (delta_t s)),
            eta := (fst (eta s)
                      + (fst (np_dot (T_of_psi (heading s)) (nu s))
                         + fst (np_dot (T_of_psi (heading s)) (vec_add (nu s) (vec_scale nd (delta_t s)))))
                        * 0.5 * delta_t s,
                    fst (snd (eta s))
                      + (fst (snd (np_dot (T_of_psi (heading s)) (nu s)))
                         + fst (snd (np_dot (T_of_psi (heading s)) (vec_add (nu s) (vec_scale nd (delta_t s))))))
                        * 0.5 * delta_t s,
                    f32 (angle_to_2pi (f32 (heading s
                      + (snd (snd (np_dot (T_of_psi (heading s)) (nu s)))
                         + snd (snd (np_dot (T_of_psi (heading s)) (vec_add (nu s) (vec_scale nd (delta_t s))))))
                        * 0.5 * delta_t s))))\<rparr>)"
proof -
  obtain N E psi where e: "eta s = (N, E, psi)" by (cases "eta s") auto
  obtain u v r where n: "nu s = (u, v, r)" by (cases "nu s") auto
  obtain du dv dr where d: "nd = (du, dv, dr)" by (cases nd) auto
  show ?thesis
    using assms
    by (simp add: upd_dynamics_def Let_def e n d heading_def vec_add_def vec_scale_def
        np_dot_def T_of_psi_def)
qed

lemma upd_dynamics_total: "\<exists>s'. upd_dynamics s = Inr s'"
proof -
  obtain nd where
    "mmg_dynamics kvlcc2_full (nu s) (heading s) (rud_angle s) (nps s) 0 (Some 0) = Inr nd"
    using mmg_dynamics_total [of "Some 0"] not_isl_ex by blast
  from upd_dynamics_value [OF this] show ?thesis by blast
qed

text \<open>
  Claim C4. One call of \<open>_upd_dynamics\<close> succeeds on every vessel state; it advances the
  body-frame velocity by one forward-Euler step with the acceleration \<open>nd\<close> that
  \<open>_mmg_dynamics\<close> computes from the state before the step, and the position by the mean
  of the world-frame velocities before and after that velocity update, times the time
  step. The last two conjuncts give the same position in closed form: it differs from a
  single Euler step on the position by the world-frame acceleration times half the squared
  time step.
\<close>

theorem upd_dynamics_euler_trapezoidal:
  "\<exists>nd s'.
     mmg_dynamics kvlcc2_full (nu s) (heading s) (rud_angle s) (nps s) 0 (Some 0) = Inr nd
     \<and> upd_dynamics s = Inr s'
     \<and> nu s' = vec_add (nu s) (vec_scale nd (delta_t s))
     \<and> fst (eta s') = fst (eta s)
          + (fst (np_dot (T_of_psi (heading s)) (nu s))
             + fst (np_dot (T_of_psi (heading s)) (nu s'))) / 2 * delta_t s
     \<and> fst (snd (eta s')) = fst (snd (eta s))
          + (fst (snd (np_dot (T_of_psi (heading s)) (nu s)))
             + fst (snd (np_dot (T_of_psi (heading s)) (nu s')))) / 2 * delta_t s
     \<and> fst (eta s') = fst (eta s)
          + fst (np_dot (T_of_psi (heading s)) (nu s)) * delta_t s
          + fst (np_dot (T_of_psi (heading s)) nd) * (delta_t s) ^ 2 / 2
     \<and> fst (snd (eta s')) = fst (snd (eta s))
          + fst (snd (np_dot (T_of_psi (heading s)) (nu s))) * delta_t s
          + fst (snd (np_dot (T_of_psi (heading s)) nd)) * (delta_t s) ^ 2 / 2"
proof -
  obtain nd where nd:
    "mmg_dynamics kvlcc2_full (nu s) (heading s) (rud_angle s) (nps s) 0 (Some 0) = Inr nd"
    using mmg_dynamics_total [of "Some 0"] not_isl_ex by blast
  obtain u v r where n: "nu s = (u, v, r)" by (cases "nu s") auto
  obtain du dv dr where d: "nd = (du, dv, dr)" by (cases nd) auto
  define s' where "s' = projr (upd_dynamics s)"
  have s': "upd_dynamics s = Inr s'"
    unfolding s'_def using upd_dynamics_value [OF nd] by simp
  have vals:
    "nu s' = vec_add (nu s) (vec_scale nd (delta_t s))"
    "fst (eta s') = fst (eta s)
       + (fst (np_dot (T_of_psi (heading s)) (nu s))
          + fst (np_dot (T_of_psi (heading s)) (nu s'))) / 2 * delta_t s"
    "fst (snd (eta s')) = fst (snd (eta s))
       + (fst (snd (np_dot (T_of_psi (heading s)) (nu s)))
          + fst (snd (np_dot (T_of_psi (heading s)) (nu s')))) / 2 * delta_t s"
    unfolding s'_def upd_dynamics_value [OF nd] by simp_all
  have closed:
    "fst (eta s') = fst (eta s)
       + fst (np_dot (T_of_psi (heading s)) (nu s)) * delta_t s
       + fst (np_dot (T_of_psi (heading s)) nd) * (delta_t s) ^ 2 / 2"
    "fst (snd (eta s')) = fst (snd (eta s))
       + fst (snd (np_dot (T_of_psi (heading s)) (nu s))) * delta_t s
       + fst (snd (np_dot (T_of_psi (heading s)) nd)) * (delta_t s) ^ 2 / 2"
    unfolding vals(2,3) unfolding vals(1)
    by (simp_all add: n d vec_add_def vec_scale_def np_dot_def T_of_psi_def
        power2_eq_square field_simps)
  from nd s' vals closed show ?thesis by blast
qed

lemma err_bind_Inr_iff: "err_bind m f = Inr y \<longleftrightarrow> (\<exists>x. m = Inr x \<and> f x = Inr y)"
  by (cases m) simp_all

text \<open>Bounds of \<open>pi\<close> from Machin's formula and the alternating series of \<open>arctan\<close>.\<close>

lemma arctan_series_bounds:
  fixes x :: real
  assumes "0 < x" "x \<le> 1"
  shows "(\<Sum>i<2*n. (- 1) ^ i * (1 / real (i * 2 + 1) * x ^ (i * 2 + 1))) \<le> arctan x"
    and "arctan x \<le> (\<Sum>i<2*n+1. (- 1) ^ i * (1 / real (i * 2 + 1) * x ^ (i * 2 + 1)))"
proof -
  have ax: "\<bar>x\<bar> \<le> 1" using assms by simp
  have pos: "0 < 1 / real (0 * 2 + 1) * x ^ (0 * 2 + 1)" using assms by simp
  from summable_Leibniz(2)[OF zeroseq_arctan_series[OF ax] monoseq_arctan_series[OF ax]] pos
  have "\<forall>n. (\<Sum>i. (- 1) ^ i * (1 / real (i * 2 + 1) * x ^ (i * 2 + 1)))
           \<in> {\<Sum>i<2*n. (- 1) ^ i * (1 / real (i * 2 + 1) * x ^ (i * 2 + 1)) ..
              \<Sum>i<2*n+1. (- 1) ^ i * (1 / real (i * 2 + 1) * x ^ (i * 2 + 1))}"
    by blast
  then show "(\<Sum>i<2*n. (- 1) ^ i * (1 / real (i * 2 + 1) * x ^ (i * 2 + 1))) \<le> arctan x"
    and "arctan x \<le> (\<Sum>i<2*n+1. (- 1) ^ i * (1 / real (i * 2 + 1) * x ^ (i * 2 + 1)))"
    using arctan_series[OF ax] by auto
qed

lemma arctan_fifth_bounds:
  "197395559788 / 1000000000000 \<le> arctan (1 / 5 :: real)"
  "arctan (1 / 5 :: real) \<le> 197395559852 / 1000000000000"
proof -
  have "(\<Sum>i<2*3. (- 1) ^ i * (1 / real (i * 2 + 1) * (1 / 5 :: real) ^ (i * 2 + 1))) \<le> arctan (1 / 5)"
    by (rule arctan_series_bounds) simp_all
  moreover have "197395559788 / 1000000000000
      \<le> (\<Sum>i<2*3. (- 1) ^ i * (1 / real (i * 2 + 1) * (1 / 5 :: real) ^ (i * 2 + 1)))"
    by (simp add: eval_nat_numeral)
  ultimately show "197395559788 / 1000000000000 \<le> arctan (1 / 5 :: real)" by linarith
  have "arctan (1 / 5) \<le> (\<Sum>i<2*3+1. (- 1) ^ i * (1 / real (i * 2 + 1) * (1 / 5 :: real) ^ (i * 2 + 1)))"
    by (rule arctan_series_bounds) simp_all
  moreover have "(\<Sum>i<2*3+1. (- 1) ^ i * (1 / real (i * 2 + 1) * (1 / 5 :: real) ^ (i * 2 + 1)))
      \<le> 197395559852 / 1000000000000"
    by (simp add: eval_nat_numeral)
  ultimately show "arctan (1 / 5 :: real) \<le> 197395559852 / 1000000000000" by linarith
qed

lemma arctan_239_bounds:
  "4184076001 / 1000000000000 \<le> arctan (1 / 239 :: real)"
  "arctan (1 / 239 :: real) \<le> 4184076003 / 1000000000000"
proof -
  have "(\<Sum>i<2*1. (- 1) ^ i * (1 / real (i * 2 + 1) * (1 / 239 :: real) ^ (i * 2 + 1))) \<le> arctan (1 / 239)"
    by (rule arctan_series_bounds) simp_all
  moreover have "4184076001 / 1000000000000
      \<le> (\<Sum>i<2*1. (- 1) ^ i * (1 / real (i * 2 + 1) * (1 / 239 :: real) ^ (i * 2 + 1)))"
    by (simp add: eval_nat_numeral)
  ultimately show "4184076001 / 1000000000000 \<le> arctan (1 / 239 :: real)" by linarith
  have "arctan (1 / 239) \<le> (\<Sum>i<2*1+1. (- 1) ^ i * (1 / real (i * 2 + 1) * (1 / 239 :: real) ^ (i * 2 + 1)))"
    by (rule arctan_series_bounds) simp_all
  moreover have "(\<Sum>i<2*1+1. (- 1) ^ i * (1 / real (i * 2 + 1) * (1 / 239 :: real) ^ (i * 2 + 1)))
      \<le> 4184076003 / 1000000000000"
    by (simp add: eval_nat_numeral)
  ultimately show "arctan (1 / 239 :: real) \<le> 4184076003 / 1000000000000" by linarith
qed

lemma pi_bounds: "314159265 / 100000000 < pi" "pi < 314159266 / 100000000"
  using machin arctan_fifth_bounds arctan_239_bounds by linarith+

lemma f32_zero [simp]: "f32 0 = 0"
  by (simp add: f32_def)

lemma round_half_even_above:
  assumes "of_int k + 1 / 2 < y" "y < of_int k + 1"
  shows "round_half_even y = k + 1"
proof -
  have "\<lfloor>y\<rfloor> = k" using assms by linarith
  then show ?thesis using assms by (simp add: round_half_even_def Let_def)
qed

text \<open>In the binade \<open>[4, 8)\<close> the float32 numbers are the multiples of \<open>2 ^ - 21\<close>.\<close>

lemma f32_binade_4_8:
  assumes "4 \<le> x" "x < 8"
  shows "f32 x = of_int (round_half_even (x * 2097152)) / 2097152"
proof -
  have e: "\<lfloor>log 2 \<bar>x\<bar>\<rfloor> = 2"
  proof -
    have "2 powr real_of_int 2 \<le> x" "x < 2 powr real_of_int (2 + 1)" using assms by simp_all
    then have "\<lfloor>log 2 x\<rfloor> = 2"
      using floor_log_eq_powr_iff [of x 2 2] assms by simp
    then show ?thesis using assms by simp
  qed
  have p: "2 powr (real_of_int (max 2 (- 126)) - 23) = 1 / 2097152"
    by (simp add: powr_minus_divide)
  have "x \<noteq> 0" using assms by simp
  then show ?thesis
    unfolding f32_def Let_def e p by simp
qed

text \<open>
  Every number from 6.28318525 up to \<open>2 pi\<close> (6.28318530717...) is stored as the float32
  number \<open>13176795 / 2 ^ 21\<close> (6.28318548...), the float32 value of \<open>2 pi\<close>, which is
  larger than \<open>2 pi\<close>.
\<close>

lemma f32_just_below_2pi:
  assumes "628318525 / 100000000 \<le> x" "x < 2 * pi"
  shows "f32 x = 13176795 / 2097152" "2 * pi < f32 x"
proof -
  have b: "4 \<le> x" "x < 8" using assms pi_bounds by linarith+
  have "of_int 13176794 + 1 / 2 < x * 2097152" using assms(1) by simp
  moreover have "x * 2097152 < of_int 13176794 + 1" using assms(2) pi_bounds(2) by simp
  ultimately have "round_half_even (x * 2097152) = 13176794 + 1"
    by (rule round_half_even_above)
  then show v: "f32 x = 13176795 / 2097152" by (simp add: f32_binade_4_8 [OF b])
  show "2 * pi < f32 x" unfolding v using pi_bounds(2) by simp
qed

lemma heading_upd_dynamics:
  "\<exists>s'. upd_dynamics s = Inr s'
     \<and> heading s' = f32 (angle_to_2pi (f32 (heading s
          + (snd (snd (np_dot (T_of_psi (heading s)) (nu s)))
             + snd (snd (np_dot (T_of_psi (heading s)) (nu s')))) * 0.5 * delta_t s)))"
proof -
  obtain nd where nd:
    "mmg_dynamics kvlcc2_full (nu s) (heading s) (rud_angle s) (nps s) 0 (Some 0) = Inr nd"
    using mmg_dynamics_total [of "Some 0"] not_isl_ex by blast
  show ?thesis
    unfolding upd_dynamics_value [OF nd] by (simp add: heading_def)
qed

lemma heading_manual_heading_control:
  assumes "- 1 \<le> a" "a \<le> 1"
  shows "\<exists>s'. manual_heading_control dhs s a = Inr s'
           \<and> heading s' = f32 (angle_to_2pi (heading s + a * dhs))"
  using assms by (cases "eta s") (simp add: manual_heading_control_def heading_def)

text \<open>
  Claim C2. The heading is wrapped to \<open>[0, 2 pi)\<close> after every dynamics update and after
  every manual heading change, and the wrapped value is then stored in the float32 array
  \<open>eta\<close>. A wrapped heading just below \<open>2 pi\<close> is stored as the float32 value of \<open>2 pi\<close>,
  which is larger than \<open>2 pi\<close>: with the own ship of the path-planning environment at
  heading 0, the heading-control action \<open>a = -1e-7\<close> (a turn by \<open>1e-7 * d_head_scale\<close> to
  port) leaves the stored heading \<open>13176795 / 2 ^ 21\<close>, outside \<open>[0, 2 pi)\<close>.
\<close>

theorem manual_heading_control_stores_heading_above_2pi:
  "heading (pp_OS ex_pp_env) = 0
   \<and> (\<exists>s'. manual_heading_control (d_head_scale ex_pp_env) (pp_OS ex_pp_env) (- 1 / 10000000) = Inr s'
          \<and> heading s' = 13176795 / 2097152
          \<and> 2 * pi < heading s')"
proof -
  have h0: "heading (pp_OS ex_pp_env) = 0"
    by (simp add: ex_pp_env_def KVLCC2_init_def heading_def)
  have d: "d_head_scale ex_pp_env = dtr 10" by (simp add: ex_pp_env_def)
  define a where "a = 1 / 10000000 * dtr 10"
  have a: "0 < a" "a \<le> 2 * pi" "a < 18 / 1000000000"
    using pi_bounds by (simp_all add: a_def dtr_def)
  have w: "angle_to_2pi (0 + - 1 / 10000000 * dtr 10) = 2 * pi - a"
    using angle_to_2pi_minus [OF a(1,2)] by (simp add: a_def)
  have r: "628318525 / 100000000 \<le> 2 * pi - a" "2 * pi - a < 2 * pi"
    using a pi_bounds by linarith+
  obtain s' where s': "manual_heading_control (dtr 10) (pp_OS ex_pp_env) (- 1 / 10000000) = Inr s'"
    and hs: "heading s' = f32 (angle_to_2pi (heading (pp_OS ex_pp_env) + - 1 / 10000000 * dtr 10))"
    using heading_manual_heading_control [of "- 1 / 10000000" "dtr 10" "pp_OS ex_pp_env"] by auto
  have "heading s' = f32 (2 * pi - a)" using hs by (simp only: h0 w)
  with f32_just_below_2pi [OF r] h0 s' d show ?thesis by auto
qed

lemma mmg_dynamics_with_current:
  assumes "fv \<noteq> 0"
  shows "mmg_dynamics kvlcc2_full v p ra n fp (Some fv) = Inl TypeError"
proof -
  obtain u v' r where v: "v = (u, v', r)" by (cases v) auto
  define vm where "vm = vm_from_v_r kvlcc2_full v' r"
  obtain U beta v_dash r_dash where
    prep: "mmg_preparation kvlcc2_full u vm r = Inr (U, beta, v_dash, r_dash)"
    using mmg_preparation_value [of kvlcc2_full u vm r] by (metis prod_cases4)
  obtain w_P J K_T X_P where
    prpl: "mmg_propeller kvlcc2_full u beta r_dash n = Inr (w_P, J, K_T, X_P)"
    and KT: "K_T = k_0 kvlcc2_full + k_1 kvlcc2_full * J + k_2 kvlcc2_full * J ^ 2"
    using mmg_propeller_total [of u beta r_dash n]
    by (auto split: sum.splits)
  obtain X_R Y_R N_R where
    rud: "mmg_rudder kvlcc2_full u U beta r_dash ra w_P J K_T = Inr (X_R, Y_R, N_R)"
    using mmg_rudder_total [OF KT] not_isl_ex by (metis prod_cases3)
  have cur: "mmg_currents kvlcc2_full u vm p fp (Some fv) = Inl TypeError"
    using assms by (rule mmg_currents_TypeError)
  show ?thesis
    unfolding mmg_dynamics_def v
    by (simp add: vm_def[symmetric] Let_def prep prpl rud cur)
qed

lemma mmg_degenerate_branches:
  "u ^ 2 + vm ^ 2 = 0 \<Longrightarrow> mmg_preparation P u vm r = Inr (0, 0, 0, 0)"
  "Lpp P \<noteq> 0 \<Longrightarrow> \<exists>w_P X_P. mmg_propeller P u beta r_dash 0 = Inr (w_P, 0, k_0 P, X_P)"
  by (simp_all add: mmg_preparation_value mmg_propeller_def py_div_def Let_def)

lemma mmg_dynamics_no_arithmetic_error:
  "mmg_dynamics kvlcc2_full vel p ra n fp fv \<noteq> Inl ZeroDivisionError"
  "mmg_dynamics kvlcc2_full vel p ra n fp fv \<noteq> Inl ValueError"
proof -
  have "(\<exists>nd. mmg_dynamics kvlcc2_full vel p ra n fp fv = Inr nd)
        \<or> mmg_dynamics kvlcc2_full vel p ra n fp fv = Inl TypeError"
  proof (cases "fv = None \<or> fv = Some 0")
    case True
    then show ?thesis using mmg_dynamics_total not_isl_ex by blast
  next
    case False
    then obtain c where "fv = Some c" "c \<noteq> 0" by (cases fv) auto
    then show ?thesis using mmg_dynamics_with_current by blast
  qed
  then show "mmg_dynamics kvlcc2_full vel p ra n fp fv \<noteq> Inl ZeroDivisionError"
    and "mmg_dynamics kvlcc2_full vel p ra n fp fv \<noteq> Inl ValueError"
    by auto
qed

text \<open>
  Claim C5. In \<open>_mmg_dynamics\<close> the preparation yields the drift angle, the
  non-dimensional lateral velocity and the non-dimensional yaw rate 0 when the total speed
  \<open>U = sqrt (u^2 + vm^2)\<close> is 0, and their quotients by \<open>U\<close> otherwise; the propeller part
  yields the advance ratio 0 when \<open>nps\<close> is 0. With these branches the function returns
  an acceleration on every velocity, heading, rudder angle and propeller revolution (as
  called from \<open>_upd_dynamics\<close> and the inverse solvers, with \<open>fl_vel = 0.0\<close>, and with
  \<open>fl_vel = None\<close>), and on no input at all, a current included, does it divide by zero
  or take the root of a negative number.
\<close>

theorem mmg_dynamics_degenerate_total:
  "mmg_preparation kvlcc2_full u vm r =
     Inr (if sqrt (u ^ 2 + vm ^ 2) = 0 then (0, 0, 0, 0)
          else (sqrt (u ^ 2 + vm ^ 2), drift_angle vm u, vm / sqrt (u ^ 2 + vm ^ 2),
                r * Lpp kvlcc2_full / sqrt (u ^ 2 + vm ^ 2)))
   \<and> mmg_preparation kvlcc2_full 0 0 r = Inr (0, 0, 0, 0)
   \<and> (\<exists>w_P X_P. mmg_propeller kvlcc2_full u beta r_dash 0 = Inr (w_P, 0, k_0 kvlcc2_full, X_P))
   \<and> (\<exists>nd. mmg_dynamics kvlcc2_full vel psi ra n fp (Some 0) = Inr nd)
   \<and> (\<exists>nd. mmg_dynamics kvlcc2_full vel psi ra n fp None = Inr nd)
   \<and> mmg_dynamics kvlcc2_full vel psi ra n fp fv \<noteq> Inl ZeroDivisionError
   \<and> mmg_dynamics kvlcc2_full vel psi ra n fp fv \<noteq> Inl ValueError"
proof -
  have 1: "mmg_preparation kvlcc2_full 0 0 r = Inr (0, 0, 0, 0)"
    by (rule mmg_degenerate_branches) simp
  have 2: "\<exists>w_P X_P. mmg_propeller kvlcc2_full u beta r_dash 0 = Inr (w_P, 0, k_0 kvlcc2_full, X_P)"
    by (rule mmg_degenerate_branches) (rule kvlcc2_nonzero)
  have 3: "\<exists>nd. mmg_dynamics kvlcc2_full vel psi ra n fp (Some 0) = Inr nd"
    "\<exists>nd. mmg_dynamics kvlcc2_full vel psi ra n fp None = Inr nd"
    using mmg_dynamics_total not_isl_ex by blast+
  from mmg_preparation_value [of kvlcc2_full u vm r] 1 2 3
    mmg_dynamics_no_arithmetic_error [of vel psi ra n fp fv]
  show ?thesis by blast
qed

text \<open>
  Claim C10. Whenever the own ship's Euclidean distance to the goal is at most
  \<open>stop_spawn_dist\<close>, every call of \<open>_handle_respawn\<close> that passes the handler's
  assertion on its flags (at most one of \<open>respawn\<close>, \<open>mirrow\<close>, \<open>clip\<close> is set)
  returns the given vessel unchanged with the respawn flag \<open>False\<close> and draws no random
  number, whether or not the vessel is off the map and whatever its TCPA.
\<close>

theorem handle_respawn_near_goal:
  assumes "ED (pos_N (OS env)) (pos_E (OS env)) (goal_N env) (goal_E env) True \<le> stop_spawn_dist env"
    and "of_bool respawn + of_bool mirrow + of_bool clip \<le> (1::nat)"
  shows "handle_respawn X env ds TSv respawn mirrow clip = Some (Inr ((TSv, False), ds))"
  using assms by (simp add: handle_respawn_def Let_def)

lemma ED_same_E: "ED N0 E N1 E b = (if b then \<bar>N0 - N1\<bar> else (N0 - N1) ^ 2)"
  by (simp add: ED_def)

lemma ex_cfg:
  "FossenEnv_init 3 False False ''tau'' design False =
     (if design \<notin> {''maxRisk'', ''RecDQN''} then Inl AssertionError
      else Inr (projr (FossenEnv_init 3 False False ''tau'' design False)))"
  by (simp add: FossenEnv_init_def)

lemma ex_env_fields:
  "design \<in> {''maxRisk'', ''RecDQN''} \<Longrightarrow> stop_spawn_dist (ex_env design OS0 TSs0) = 50"
  "OS (ex_env design OS0 TSs0) = OS0"
  "TSs (ex_env design OS0 TSs0) = TSs0"
  "goal_N (ex_env design OS0 TSs0) = 180"
  "goal_E (ex_env design OS0 TSs0) = 100"
  by (auto simp: ex_env_def env_after_reset_def FossenEnv_init_def FossenEnv_config.defs FossenEnv.defs
      goal_N_def goal_E_def)

lemma ex_ship_fields:
  "pos_N (ex_ship N E psi u) = N" "pos_E (ex_ship N E psi u) = E" "heading (ex_ship N E psi u) = psi"
  "nu (ex_ship N E psi u) = (u, 0, 0)"
  by (simp_all add: ex_ship_def pos_N_def pos_E_def heading_def)

theorem handle_respawn_near_goal_witness:
  "ED (pos_N (OS (ex_env ''RecDQN'' (ex_ship 170 100 0 1) [ex_ship 250 100 0 1])))
      (pos_E (OS (ex_env ''RecDQN'' (ex_ship 170 100 0 1) [ex_ship 250 100 0 1])))
      (goal_N (ex_env ''RecDQN'' (ex_ship 170 100 0 1) [ex_ship 250 100 0 1]))
      (goal_E (ex_env ''RecDQN'' (ex_ship 170 100 0 1) [ex_ship 250 100 0 1])) True
     \<le> stop_spawn_dist (ex_env ''RecDQN'' (ex_ship 170 100 0 1) [ex_ship 250 100 0 1])
   \<and> of_bool True + of_bool False + of_bool False \<le> (1::nat)
   \<and> handle_respawn ex_CS2 (ex_env ''RecDQN'' (ex_ship 170 100 0 1) [ex_ship 250 100 0 1]) []
        (ex_ship 250 100 0 1) True False False
      = Some (Inr ((ex_ship 250 100 0 1, False), []))"
proof -
  let ?env = "ex_env ''RecDQN'' (ex_ship 170 100 0 1) [ex_ship 250 100 0 1]"
  have h1: "ED (pos_N (OS ?env)) (pos_E (OS ?env)) (goal_N ?env) (goal_E ?env) True \<le> stop_spawn_dist ?env"
    by (simp add: ex_env_fields ex_ship_fields ED_same_E)
  have h2: "of_bool True + of_bool False + of_bool False \<le> (1::nat)" by simp
  from handle_respawn_near_goal [OF h1 h2] h1 h2 show ?thesis by blast
qed

lemma agent_init_rejects:
  "mode \<notin> {''train'', ''test''} \<Longrightarrow>
     CNN_DQN_Agent_init mode shape w inorm prior n dev = Inl AssertionError"
  "CNN_DQN_Agent_init ''test'' shape None inorm prior n dev = Inl AssertionError"
  "mode \<notin> {''train'', ''test''} \<Longrightarrow> TQC_Agent_init td mode aw cw dev = Inl AssertionError"
  "aw = None \<or> cw = None \<Longrightarrow> TQC_Agent_init td ''test'' aw cw dev = Inl AssertionError"
  by (auto simp: CNN_DQN_Agent_init_def TQC_Agent_init_def)

lemma env_init_rejects_state_design:
  "sd \<notin> {''maxRisk'', ''RecDQN''} \<Longrightarrow> FossenEnv_init n rnd inc ca sd pt = Inl AssertionError"
  "sd \<notin> {''recursive'', ''conventional''} \<Longrightarrow> HHOS_PathPlanning_init base sd = Inl AssertionError"
  by (simp_all add: FossenEnv_init_def HHOS_PathPlanning_init_def)

lemma control_rejects_action:
  "a \<notin> {0, 1, 2} \<Longrightarrow> control s a = Inl AssertionError"
  "a < - 1 \<or> 1 < a \<Longrightarrow> manual_heading_control dhs s a = Inl AssertionError"
  by (auto simp: control_def manual_heading_control_def)

lemma handle_respawn_rejects_flags:
  "\<not> of_bool respawn + of_bool mirrow + of_bool clip \<le> (1::nat) \<Longrightarrow>
     handle_respawn X env ds TSv respawn mirrow clip = Some (Inl AssertionError)"
  by (simp add: handle_respawn_def Let_def)

text \<open>
  Claim C9. A configuration error is to be rejected when the object is constructed or the
  method is called. The constructors and methods above do so for the mode, the missing
  weights, the state design, the action and the respawn flags. A control approach that
  the environment does not support is not rejected: \<open>FossenEnv(cnt_approach="thrust")\<close>
  is constructed, keeps the string, and has no action space.
\<close>

theorem FossenEnv_init_accepts_unknown_cnt_approach:
  "\<not> isl (FossenEnv_init 3 False False ''thrust'' ''RecDQN'' False)
   \<and> cnt_approach (projr (FossenEnv_init 3 False False ''thrust'' ''RecDQN'' False)) = ''thrust''
   \<and> action_space (projr (FossenEnv_init 3 False False ''thrust'' ''RecDQN'' False)) = None"
  by (simp add: FossenEnv_init_def)


lemma angle_to_pi_of_2pi:
  assumes "0 \<le> a" "a < 2 * pi"
  shows "angle_to_pi a = (if a \<le> pi then a else a - 2 * pi)"
proof (cases "a \<le> pi")
  case True
  have "\<lfloor>(pi - a) / (2 * pi)\<rfloor> = 0"
    using True assms by (simp add: floor_eq_iff field_simps)
  then show ?thesis using True by (simp add: angle_to_pi_def)
next
  case False
  have "\<lfloor>(pi - a) / (2 * pi)\<rfloor> = - 1"
    using False assms by (simp add: floor_eq_iff field_simps)
  then show ?thesis using False by (simp add: angle_to_pi_def)
qed

lemma py_atan2_north: "0 < y \<Longrightarrow> py_atan2 0 y = 0"
  by (simp add: py_atan2_def)

lemma bng_abs_north: "N0 < N1 \<Longrightarrow> bng_abs N0 E N1 E = 0"
  by (simp add: bng_abs_def py_atan2_north angle_to_2pi_eq)

lemma rtd_dtr [simp]: "rtd (dtr x) = x" "dtr (rtd x) = x"
  by (simp_all add: rtd_def dtr_def)

lemma ex_env_maxima:
  "design \<in> {''maxRisk'', ''RecDQN''} \<Longrightarrow> env_E_max (ex_env design OS0 TSs0) = 200"
  "design \<in> {''maxRisk'', ''RecDQN''} \<Longrightarrow> env_N_max (ex_env design OS0 TSs0) = 200"
  by (auto simp: ex_env_def env_after_reset_def FossenEnv_init_def FossenEnv_config.defs FossenEnv.defs)

lemma calculate_reward_value:
  assumes "reward_loop env 0 (TSs env) (0, 0) = Inr (c, g)"
  shows "calculate_reward env w1 w2 w3 w4 w5 =
     Inr (env\<lparr>r_dist := - ED (pos_N (OS env)) (pos_E (OS env)) (goal_N env) (goal_E env) True / env_E_max env,
              r_head := - 3 * \<bar>angle_to_pi (bng_rel (pos_N (OS env)) (pos_E (OS env)) (goal_N env) (goal_E env) (heading (OS env)) True)\<bar> / pi,
              r_coll := c, r_COLREG := g, r_comf := - 10 * \<bar>nu2 (OS env)\<bar> ^ 2,
              env_r := w1 * (- ED (pos_N (OS env)) (pos_E (OS env)) (goal_N env) (goal_E env) True / env_E_max env)
                 + w2 * (- 3 * \<bar>angle_to_pi (bng_rel (pos_N (OS env)) (pos_E (OS env)) (goal_N env) (goal_E env) (heading (OS env)) True)\<bar> / pi)
                 + w3 * c + w4 * g + w5 * (- 10 * \<bar>nu2 (OS env)\<bar> ^ 2)\<rparr>)"
  using assms by (simp add: calculate_reward_def Let_def)

lemma calculate_reward_Inr:
  assumes "calculate_reward env w1 w2 w3 w4 w5 = Inr env'"
  obtains c g where "reward_loop env 0 (TSs env) (0, 0) = Inr (c, g)"
  using assms by (cases "reward_loop env 0 (TSs env) (0, 0)") (auto simp: calculate_reward_def Let_def)

lemma pp_weighted:
  assumes "pp_calculate_reward D penv a = Inr penv'"
  shows "pp_r penv' =
     (if thrust_control_planner penv then
        (if w_ye penv + w_ce penv + w_coll penv + w_comf penv + w_speed penv \<noteq> 0
         then (w_ye penv * r_ye penv' + w_ce penv * r_ce penv' + w_coll penv * pp_r_coll penv'
               + w_comf penv * the (pp_r_comf penv') + w_speed penv * the (r_speed penv'))
              / (w_ye penv + w_ce penv + w_coll penv + w_comf penv + w_speed penv)
         else 0)
      else
        (if w_ye penv + w_ce penv + w_coll penv \<noteq> 0
         then (w_ye penv * r_ye penv' + w_ce penv * r_ce penv' + w_coll penv * pp_r_coll penv')
              / (w_ye penv + w_ce penv + w_coll penv)
         else 0))"
proof (cases "thrust_control_planner penv")
  case True
  then have len: "1 < length a"
    using assms by (cases "1 < length a") (simp_all add: pp_calculate_reward_def Let_def)
  have e: "penv' = projr (pp_calculate_reward D penv a)" using assms by simp
  show ?thesis
    unfolding e using True len
    by (simp add: pp_calculate_reward_def Let_def np_sum_def algebra_simps
        split del: if_split cong: if_cong)
next
  case False
  have e: "penv' = projr (pp_calculate_reward D penv a)" using assms by simp
  show ?thesis
    unfolding e using False
    by (simp add: pp_calculate_reward_def Let_def np_sum_def algebra_simps
        split del: if_split cong: if_cong)
qed

text \<open>
  Claim C3. When \<open>FossenEnv._calculate_reward\<close> returns, the reward is the weighted sum
  of the five stored terms, not divided by anything, and calling it with other weights
  changes nothing but that sum (the terms do not depend on the weights). When
  \<open>HHOS_PathPlanning_Env._calculate_reward\<close> returns, the reward is the weighted sum of
  its terms (three, or five with thrust control) divided by the sum of their weights, and
  0 when the weights sum to zero.
\<close>

theorem reward_weighted_sums:
  assumes "calculate_reward env w_dist0 w_head0 w_coll0 w_COLREG0 w_comf0 = Inr env'"
    and "pp_calculate_reward D penv a = Inr penv'"
  shows "env_r env' = w_dist0 * r_dist env' + w_head0 * r_head env' + w_coll0 * r_coll env'
                      + w_COLREG0 * r_COLREG env' + w_comf0 * r_comf env'
    \<and> calculate_reward env v1 v2 v3 v4 v5
        = Inr (env'\<lparr>env_r := v1 * r_dist env' + v2 * r_head env' + v3 * r_coll env'
                              + v4 * r_COLREG env' + v5 * r_comf env'\<rparr>)
    \<and> pp_r penv' =
       (if thrust_control_planner penv then
          (if w_ye penv + w_ce penv + w_coll penv + w_comf penv + w_speed penv \<noteq> 0
           then (w_ye penv * r_ye penv' + w_ce penv * r_ce penv' + w_coll penv * pp_r_coll penv'
                 + w_comf penv * the (pp_r_comf penv') + w_speed penv * the (r_speed penv'))
                / (w_ye penv + w_ce penv + w_coll penv + w_comf penv + w_speed penv)
           else 0)
        else
          (if w_ye penv + w_ce penv + w_coll penv \<noteq> 0
           then (w_ye penv * r_ye penv' + w_ce penv * r_ce penv' + w_coll penv * pp_r_coll penv')
                / (w_ye penv + w_ce penv + w_coll penv)
           else 0))"
proof -
  obtain c g where l: "reward_loop env 0 (TSs env) (0, 0) = Inr (c, g)"
    using assms(1) by (rule calculate_reward_Inr)
  have e: "env' = projr (calculate_reward env w_dist0 w_head0 w_coll0 w_COLREG0 w_comf0)"
    using assms(1) by simp
  have 1: "env_r env' = w_dist0 * r_dist env' + w_head0 * r_head env' + w_coll0 * r_coll env'
                      + w_COLREG0 * r_COLREG env' + w_comf0 * r_comf env'"
    unfolding e calculate_reward_value [OF l] by simp
  have 2: "calculate_reward env v1 v2 v3 v4 v5
        = Inr (env'\<lparr>env_r := v1 * r_dist env' + v2 * r_head env' + v3 * r_coll env'
                              + v4 * r_COLREG env' + v5 * r_comf env'\<rparr>)"
    unfolding e calculate_reward_value [OF l] by simp
  from 1 2 pp_weighted [OF assms(2)] show ?thesis by blast
qed

theorem reward_weighted_sums_witness:
  "calculate_reward (ex_env ''RecDQN'' (ex_ship 20 100 0 1) []) 2 2 2 2 2
     = Inr (projr (calculate_reward (ex_env ''RecDQN'' (ex_ship 20 100 0 1) []) 2 2 2 2 2))
   \<and> pp_calculate_reward (\<lambda>os ts. 0) ex_pp_env []
     = Inr (projr (pp_calculate_reward (\<lambda>os ts. 0) ex_pp_env []))
   \<and> env_r (projr (calculate_reward (ex_env ''RecDQN'' (ex_ship 20 100 0 1) []) 2 2 2 2 2)) = - 8 / 5
   \<and> pp_r (projr (pp_calculate_reward (\<lambda>os ts. 0) ex_pp_env [])) = 1 / 4"
proof -
  let ?env = "ex_env ''RecDQN'' (ex_ship 20 100 0 1) []"
  have l: "reward_loop ?env 0 (TSs ?env) (0, 0) = Inr (0, 0)"
    by (simp add: ex_env_fields)
  have h1: "calculate_reward ?env 2 2 2 2 2 = Inr (projr (calculate_reward ?env 2 2 2 2 2))"
    unfolding calculate_reward_value [OF l] by simp
  have h2: "pp_calculate_reward (\<lambda>os ts. 0) ex_pp_env []
              = Inr (projr (pp_calculate_reward (\<lambda>os ts. 0) ex_pp_env []))"
    by (simp add: pp_calculate_reward_def Let_def ex_pp_env_def)
  note t = reward_weighted_sums [OF h1 h2, of 1 1 1 1 1]
  show ?thesis
  proof -
    have a: "env_r (projr (calculate_reward ?env 2 2 2 2 2)) = - 8 / 5"
      unfolding calculate_reward_value [OF l]
      by (simp add: ex_env_fields ex_env_maxima ex_ship_fields ED_same_E nu2_def bng_rel_def
          bng_abs_north angle_to_2pi_eq angle_to_pi_of_2pi)
    have b: "pp_r (projr (pp_calculate_reward (\<lambda>os ts. 0) ex_pp_env [])) = 1 / 4"
      by (simp add: pp_calculate_reward_def Let_def ex_pp_env_def np_sum_def KVLCC2_init_def
          heading_def angle_to_pi_of_2pi not_le)
    from t h1 h2 a b show ?thesis by blast
  qed
qed

lemma rtd_range: "0 \<le> a \<Longrightarrow> a < 2 * pi \<Longrightarrow> 0 \<le> rtd a \<and> rtd a < 360"
  by (simp add: rtd_def field_simps)

lemma rtd_angle_to_pi:
  assumes "0 \<le> a" "a < 2 * pi"
  shows "rtd (angle_to_pi a) = (if rtd a \<le> 180 then rtd a else rtd a - 360)"
proof -
  have "rtd a \<le> 180 \<longleftrightarrow> a \<le> pi" by (simp add: rtd_def field_simps)
  moreover have "rtd (a - 2 * pi) = rtd a - 360" by (simp add: rtd_def field_simps)
  ultimately show ?thesis using angle_to_pi_of_2pi [OF assms] by simp
qed

lemma bng_rel_range: "0 \<le> bng_rel N0 E0 N1 E1 h True \<and> bng_rel N0 E0 N1 E1 h True < 2 * pi"
  by (simp add: bng_rel_def angle_to_2pi_range)

lemma head_inter_range: "0 \<le> head_inter h1 h2 \<and> head_inter h1 h2 < 2 * pi"
  by (simp add: head_inter_def angle_to_2pi_range)

lemma cascade_windows:
  fixes b C bT bw Cw :: real and sit :: nat
  assumes "0 \<le> b" "b < 360" "0 \<le> C" "C < 360"
    and "bw = (if b \<le> 180 then b else b - 360)"
    and "Cw = (if C \<le> 180 then C else C - 360)"
    and "sit =
     (if \<not> s then 0
      else if - 5 \<le> bw \<and> bw \<le> 5 \<and> 175 \<le> C \<and> C \<le> 185 then 1
      else if 5 \<le> b \<and> b \<le> 45 \<and> 185 \<le> C \<and> C \<le> 210 then 2
      else if 45 < b \<and> b \<le> 112.5 \<and> 210 < C \<and> C \<le> 292.5 then 3
      else if 247.5 \<le> b \<and> b \<le> 355 \<and> 67.5 \<le> C \<and> C \<le> 175 then 4
      else if 112.5 \<le> bT \<and> bT \<le> 247.5 \<and> - 67.5 \<le> Cw \<and> Cw \<le> 67.5 \<and> f then 5
      else 0)"
  shows "(sit = 1 \<longleftrightarrow> s \<and> - 5 \<le> bw \<and> bw \<le> 5 \<and> 175 \<le> C \<and> C \<le> 185)
    \<and> (sit = 2 \<longleftrightarrow> s \<and> 5 \<le> b \<and> b \<le> 45 \<and> 185 \<le> C \<and> C \<le> 210 \<and> \<not> (b = 5 \<and> C = 185))
    \<and> (sit = 3 \<longleftrightarrow> s \<and> 45 < b \<and> b \<le> 112.5 \<and> 210 < C \<and> C \<le> 292.5)
    \<and> (sit = 4 \<longleftrightarrow> s \<and> 247.5 \<le> b \<and> b \<le> 355 \<and> 67.5 \<le> C \<and> C \<le> 175 \<and> \<not> (b = 355 \<and> C = 175))
    \<and> (sit = 5 \<longleftrightarrow> s \<and> 112.5 \<le> bT \<and> bT \<le> 247.5 \<and> - 67.5 \<le> Cw \<and> Cw \<le> 67.5 \<and> f
                    \<and> \<not> (45 < b \<and> b \<le> 112.5 \<and> C = 292.5)
                    \<and> \<not> (247.5 \<le> b \<and> b \<le> 355 \<and> C = 67.5))
    \<and> sit \<le> 5"
  using assms by (auto split: if_splits)

lemma get_COLREG_situation_cascade:
  "get_COLREG_situation sight0 OSv TSv =
     (if \<not> ED (pos_N OSv) (pos_E OSv) (pos_N TSv) (pos_E TSv) True \<le> sight0 then 0
      else if - 5 \<le> rtd (angle_to_pi (bng_rel (pos_N OSv) (pos_E OSv) (pos_N TSv) (pos_E TSv) (heading OSv) True))
            \<and> rtd (angle_to_pi (bng_rel (pos_N OSv) (pos_E OSv) (pos_N TSv) (pos_E TSv) (heading OSv) True)) \<le> 5
            \<and> 175 \<le> rtd (head_inter (heading OSv) (heading TSv))
            \<and> rtd (head_inter (heading OSv) (heading TSv)) \<le> 185 then 1
      else if 5 \<le> rtd (bng_rel (pos_N OSv) (pos_E OSv) (pos_N TSv) (pos_E TSv) (heading OSv) True)
            \<and> rtd (bng_rel (pos_N OSv) (pos_E OSv) (pos_N TSv) (pos_E TSv) (heading OSv) True) \<le> 45
            \<and> 185 \<le> rtd (head_inter (heading OSv) (heading TSv))
            \<and> rtd (head_inter (heading OSv) (heading TSv)) \<le> 210 then 2
      else if 45 < rtd (bng_rel (pos_N OSv) (pos_E OSv) (pos_N TSv) (pos_E TSv) (heading OSv) True)
            \<and> rtd (bng_rel (pos_N OSv) (pos_E OSv) (pos_N TSv) (pos_E TSv) (heading OSv) True) \<le> 112.5
            \<and> 210 < rtd (head_inter (heading OSv) (heading TSv))
            \<and> rtd (head_inter (heading OSv) (heading TSv)) \<le> 292.5 then 3
      else if 247.5 \<le> rtd (bng_rel (pos_N OSv) (pos_E OSv) (pos_N TSv) (pos_E TSv) (heading OSv) True)
            \<and> rtd (bng_rel (pos_N OSv) (pos_E OSv) (pos_N TSv) (pos_E TSv) (heading OSv) True) \<le> 355
            \<and> 67.5 \<le> rtd (head_inter (heading OSv) (heading TSv))
            \<and> rtd (head_inter (heading OSv) (heading TSv)) \<le> 175 then 4
      else if 112.5 \<le> rtd (bng_rel (pos_N TSv) (pos_E TSv) (pos_N OSv) (pos_E OSv) (heading TSv) True)
            \<and> rtd (bng_rel (pos_N TSv) (pos_E TSv) (pos_N OSv) (pos_E OSv) (heading TSv) True) \<le> 247.5
            \<and> - 67.5 \<le> rtd (angle_to_pi (head_inter (heading OSv) (heading TSv)))
            \<and> rtd (angle_to_pi (head_inter (heading OSv) (heading TSv))) \<le> 67.5
            \<and> (case project_vector (CS2_get_V OSv) (CS2_get_course OSv) (CS2_get_V TSv) (CS2_get_course TSv)
                 of (V_rel_x, V_rel_y) \<Rightarrow> fst (polar_from_xy V_rel_x V_rel_y)) > CS2_get_V TSv then 5
      else 0)"
  unfolding get_COLREG_situation_def Let_def
  by (simp only: not_le if_not_P if_P split: if_split)

text \<open>
  Claim C1, as amended. With \<open>b\<close> the relative bearing of the target from the own ship
  and \<open>C\<close> the heading intersection angle, both in degrees in \<open>[0, 360)\<close>, \<open>bw\<close> and
  \<open>Cw\<close> the same two angles wrapped to \<open>(-180, 180]\<close>, and \<open>bT\<close> the relative bearing
  of the own ship from the target, the classifier returns
  head-on (1) exactly for a target in sight with \<open>bw\<close> in \<open>[-5, 5]\<close> and \<open>C\<close> in
  \<open>[175, 185]\<close>;
  starboard-crossing-small (2) exactly for a target in sight with \<open>b\<close> in \<open>[5, 45]\<close> and
  \<open>C\<close> in \<open>[185, 210]\<close>, both closed, other than the corner \<open>b = 5, C = 185\<close>, which
  is head-on;
  starboard-crossing-large (3) exactly for a target in sight with \<open>b\<close> in \<open>(45, 112.5]\<close>
  and \<open>C\<close> in \<open>(210, 292.5]\<close>;
  portside-crossing (4) exactly for a target in sight with \<open>b\<close> in \<open>[247.5, 355]\<close> and
  \<open>C\<close> in \<open>[67.5, 175]\<close>, other than the corner \<open>b = 355, C = 175\<close>, which is head-on;
  overtaking (5) exactly for a target in sight with \<open>bT\<close> in \<open>[112.5, 247.5]\<close>, \<open>Cw\<close>
  in \<open>[-67.5, 67.5]\<close> and the projected speed of the own ship above the target's speed,
  unless the geometry already is a starboard-crossing-large (at \<open>C = 292.5\<close>) or a
  portside-crossing (at \<open>C = 67.5\<close>);
  and none (0) in every other case, in particular for a target out of sight.
\<close>

theorem COLREG_situation_windows:
  fixes sight0 :: real and OSv TSv :: CyberShipII
  defines "b \<equiv> rtd (bng_rel (pos_N OSv) (pos_E OSv) (pos_N TSv) (pos_E TSv) (heading OSv) True)"
    and "bw \<equiv> rtd (angle_to_pi (bng_rel (pos_N OSv) (pos_E OSv) (pos_N TSv) (pos_E TSv) (heading OSv) True))"
    and "bT \<equiv> rtd (bng_rel (pos_N TSv) (pos_E TSv) (pos_N OSv) (pos_E OSv) (heading TSv) True)"
    and "C \<equiv> rtd (head_inter (heading OSv) (heading TSv))"
    and "Cw \<equiv> rtd (angle_to_pi (head_inter (heading OSv) (heading TSv)))"
    and "in_sight \<equiv> ED (pos_N OSv) (pos_E OSv) (pos_N TSv) (pos_E TSv) True \<le> sight0"
    and "faster \<equiv>
           (case project_vector (CS2_get_V OSv) (CS2_get_course OSv) (CS2_get_V TSv) (CS2_get_course TSv)
            of (V_rel_x, V_rel_y) \<Rightarrow> fst (polar_from_xy V_rel_x V_rel_y)) > CS2_get_V TSv"
    and "sit \<equiv> get_COLREG_situation sight0 OSv TSv"
  shows "(sit = 1 \<longleftrightarrow> in_sight \<and> - 5 \<le> bw \<and> bw \<le> 5 \<and> 175 \<le> C \<and> C \<le> 185)
    \<and> (sit = 2 \<longleftrightarrow> in_sight \<and> 5 \<le> b \<and> b \<le> 45 \<and> 185 \<le> C \<and> C \<le> 210 \<and> \<not> (b = 5 \<and> C = 185))
    \<and> (sit = 3 \<longleftrightarrow> in_sight \<and> 45 < b \<and> b \<le> 112.5 \<and> 210 < C \<and> C \<le> 292.5)
    \<and> (sit = 4 \<longleftrightarrow> in_sight \<and> 247.5 \<le> b \<and> b \<le> 355 \<and> 67.5 \<le> C \<and> C \<le> 175
                    \<and> \<not> (b = 355 \<and> C = 175))
    \<and> (sit = 5 \<longleftrightarrow> in_sight \<and> 112.5 \<le> bT \<and> bT \<le> 247.5 \<and> - 67.5 \<le> Cw \<and> Cw \<le> 67.5 \<and> faster
                    \<and> \<not> (45 < b \<and> b \<le> 112.5 \<and> C = 292.5)
                    \<and> \<not> (247.5 \<le> b \<and> b \<le> 355 \<and> C = 67.5))
    \<and> sit \<le> 5"
proof -
  have r: "0 \<le> b" "b < 360" "0 \<le> C" "C < 360"
    unfolding b_def C_def
    using rtd_range bng_rel_range head_inter_range by blast+
  have w1: "bw = (if b \<le> 180 then b else b - 360)"
    unfolding bw_def b_def using rtd_angle_to_pi bng_rel_range by blast
  have w2: "Cw = (if C \<le> 180 then C else C - 360)"
    unfolding Cw_def C_def using rtd_angle_to_pi head_inter_range by blast
  have s: "sit =
     (if \<not> in_sight then 0
      else if - 5 \<le> bw \<and> bw \<le> 5 \<and> 175 \<le> C \<and> C \<le> 185 then 1
      else if 5 \<le> b \<and> b \<le> 45 \<and> 185 \<le> C \<and> C \<le> 210 then 2
      else if 45 < b \<and> b \<le> 112.5 \<and> 210 < C \<and> C \<le> 292.5 then 3
      else if 247.5 \<le> b \<and> b \<le> 355 \<and> 67.5 \<le> C \<and> C \<le> 175 then 4
      else if 112.5 \<le> bT \<and> bT \<le> 247.5 \<and> - 67.5 \<le> Cw \<and> Cw \<le> 67.5 \<and> faster then 5
      else 0)"
    unfolding sit_def b_def bw_def bT_def C_def Cw_def in_sight_def faster_def
    by (rule get_COLREG_situation_cascade)
  show ?thesis
    by (rule cascade_windows [OF r w1 w2 s])
qed

lemma angle_to_2pi_zero [simp]: "angle_to_2pi 0 = 0"
  by (simp add: angle_to_2pi_def)

lemma dtr_bounds: "0 \<le> x \<Longrightarrow> 0 \<le> dtr x" "x < 360 \<Longrightarrow> dtr x < 2 * pi" "x \<le> 360 \<Longrightarrow> dtr x \<le> 2 * pi"
  "0 < x \<Longrightarrow> 0 < dtr x"
  by (simp_all add: dtr_def field_simps)

lemma rtd_lin: "rtd (2 * pi) = 360" "rtd (a - b) = rtd a - rtd b" "rtd pi = 180" "rtd 0 = 0"
  by (simp_all add: rtd_def field_simps)

lemma arctan_half_bounds: "pi / 36 < arctan (1 / 2)" "arctan (1 / 2) < pi / 4"
proof -
  have "(\<Sum>i<2*1. (- 1) ^ i * (1 / real (i * 2 + 1) * (1 / 2 :: real) ^ (i * 2 + 1))) \<le> arctan (1 / 2)"
    by (rule arctan_series_bounds) simp_all
  then have "11 / 24 \<le> arctan (1 / 2 :: real)"
    by (simp add: eval_nat_numeral)
  then show "pi / 36 < arctan (1 / 2)" using pi_less_4 by linarith
  have "arctan (1 / 2) < arctan 1" by (simp add: arctan_less_iff)
  then show "arctan (1 / 2) < pi / 4" by (simp add: arctan_one)
qed

text \<open>
  The claim as stated fails on the closed lower bound of the intersection angle of the
  starboard-crossing-small window. The own ship heads north (heading 0); the target lies
  20 m north and 10 m east of it, at a relative bearing of \<open>arctan (1/2)\<close>, about 26.6
  degrees, and heads \<open>dtr(185)\<close>, so the intersection angle is exactly 185 degrees. The
  geometry lies in none of the claim's windows (the bearing is not in \<open>[-5, 5]\<close>, the
  intersection angle not in \<open>(185, 210]\<close>, the wrapped intersection angle not in
  \<open>[-67.5, 67.5]\<close>), yet the target is classified as starboard-crossing-small.
\<close>

theorem COLREG_situation_windows_counterexample:
  "get_COLREG_situation 100 (ex_ship 50 100 0 1) (ex_ship 70 110 (dtr 185) 1) = 2
   \<and> ED 50 100 70 110 True \<le> 100
   \<and> 5 < rtd (bng_rel 50 100 70 110 0 True)
   \<and> rtd (bng_rel 50 100 70 110 0 True) < 45
   \<and> rtd (angle_to_pi (bng_rel 50 100 70 110 0 True)) = rtd (bng_rel 50 100 70 110 0 True)
   \<and> rtd (head_inter 0 (dtr 185)) = 185
   \<and> rtd (angle_to_pi (head_inter 0 (dtr 185))) = - 175"
proof -
  have at: "py_atan2 10 20 = arctan (1 / 2)" by (simp add: py_atan2_def)
  have ar: "0 \<le> arctan (1 / 2 :: real)" "arctan (1 / 2 :: real) < 2 * pi"
    using arctan_half_bounds pi_gt_zero by linarith+
  have b: "bng_rel 50 100 70 110 0 True = arctan (1 / 2)"
    by (simp add: bng_rel_def bng_abs_def at angle_to_2pi_eq [OF ar])
  have c: "head_inter 0 (dtr 185) = dtr 185"
    by (simp add: head_inter_def angle_to_2pi_eq dtr_bounds)
  have rb: "5 < rtd (bng_rel 50 100 70 110 0 True)" "rtd (bng_rel 50 100 70 110 0 True) < 45"
    unfolding b using arctan_half_bounds by (simp_all add: rtd_def field_simps)
  have rc: "rtd (head_inter 0 (dtr 185)) = 185" by (simp add: c)
  have rbw: "rtd (angle_to_pi (bng_rel 50 100 70 110 0 True)) = rtd (bng_rel 50 100 70 110 0 True)"
    using rtd_angle_to_pi [OF conjunct1 [OF bng_rel_range] conjunct2 [OF bng_rel_range],
        of 50 100 70 110 0] rb by simp
  have rcw: "rtd (angle_to_pi (head_inter 0 (dtr 185))) = - 175"
    using rtd_angle_to_pi [OF conjunct1 [OF head_inter_range] conjunct2 [OF head_inter_range],
        of 0 "dtr 185"] rc by simp
  have d: "ED 50 100 70 110 True \<le> 100"
    unfolding ED_def by (simp add: real_le_lsqrt)
  have "get_COLREG_situation 100 (ex_ship 50 100 0 1) (ex_ship 70 110 (dtr 185) 1) = 2"
    unfolding get_COLREG_situation_cascade ex_ship_fields
    using d rb by (simp add: rc rbw rcw)
  with d rb rbw rc rcw show ?thesis by blast
qed

theorem COLREG_situation_windows_witness:
  "ED (pos_N (ex_ship 50 100 0 1)) (pos_E (ex_ship 50 100 0 1))
      (pos_N (ex_ship 60 100 pi 1)) (pos_E (ex_ship 60 100 pi 1)) True \<le> 100
   \<and> rtd (angle_to_pi (bng_rel (pos_N (ex_ship 50 100 0 1)) (pos_E (ex_ship 50 100 0 1))
        (pos_N (ex_ship 60 100 pi 1)) (pos_E (ex_ship 60 100 pi 1)) (heading (ex_ship 50 100 0 1)) True)) = 0
   \<and> rtd (head_inter (heading (ex_ship 50 100 0 1)) (heading (ex_ship 60 100 pi 1))) = 180
   \<and> get_COLREG_situation 100 (ex_ship 50 100 0 1) (ex_ship 60 100 pi 1) = 1"
proof -
  have b: "bng_rel 50 100 60 100 0 True = 0"
    by (simp add: bng_rel_def bng_abs_north)
  have c: "head_inter 0 pi = pi"
    by (simp add: head_inter_def angle_to_2pi_eq)
  have bw: "angle_to_pi 0 = 0" by (simp add: angle_to_pi_of_2pi)
  have d: "ED 50 100 60 100 True \<le> 100" by (simp add: ED_same_E)
  note t = COLREG_situation_windows [of 100 "ex_ship 50 100 0 1" "ex_ship 60 100 pi 1"]
  have "get_COLREG_situation 100 (ex_ship 50 100 0 1) (ex_ship 60 100 pi 1) = 1"
    using conjunct1 [OF t] d by (simp add: ex_ship_fields b c bw rtd_lin)
  then show ?thesis
    using d by (simp add: ex_ship_fields b c bw rtd_lin)
qed

lemma length_TS_obs: "length (TS_obs env j T) = 6"
  by (simp add: TS_obs_def Let_def)

lemma TS_rows_value:
  "i + length Ts \<le> length (TS_COLREGs env) \<Longrightarrow>
     TS_rows env i Ts =
       Inr (map (\<lambda>(j, T). (TS_obs env j T, TS_risk env T))
              (filter (\<lambda>(j, T). TS_in_sight env T) (List.enumerate i Ts)))"
proof (induction Ts arbitrary: i)
  case Nil
  then show ?case by simp
next
  case (Cons T Ts)
  from Cons.prems have "Suc i + length Ts \<le> length (TS_COLREGs env)" by simp
  from Cons.IH [OF this] Cons.prems show ?case by simp
qed

lemma length_filter_enumerate:
  "length (filter (\<lambda>(j, T). P T) (List.enumerate i xs)) = length (filter P xs)"
  by (induction xs arbitrary: i) simp_all

lemma argsort_props: "length (argsort xs) = length xs" "set (argsort xs) \<subseteq> {0..<length xs}"
proof -
  show "length (argsort xs) = length xs" by (simp add: argsort_def)
  have "set (argsort xs) = snd ` set (zip xs [0..<length xs])"
    by (simp add: argsort_def)
  also have "\<dots> \<subseteq> set [0..<length xs]"
    by (auto dest: set_zip_rightD)
  finally show "set (argsort xs) \<subseteq> {0..<length xs}" by simp
qed

lemma mset_argsort: "mset (argsort xs) = mset [0..<length xs]"
proof -
  have "mset (argsort xs) = image_mset snd (mset (sort_key fst (zip xs [0..<length xs])))"
    unfolding argsort_def by (rule mset_map)
  also have "\<dots> = image_mset snd (mset (zip xs [0..<length xs]))"
    by (simp only: mset_sort)
  also have "\<dots> = mset (map snd (zip xs [0..<length xs]))"
    by (rule mset_map [symmetric])
  also have "map snd (zip xs [0..<length xs]) = [0..<length xs]"
    by (rule map_snd_zip) simp
  finally show ?thesis .
qed

lemma mset_sorted_rows:
  assumes "length ks = length rows"
  shows "mset (map (\<lambda>idx. f (rows ! idx)) (rev (argsort ks))) = mset (map f rows)"
proof -
  have "mset (map (\<lambda>idx. f (rows ! idx)) (rev (argsort ks)))
          = image_mset (\<lambda>idx. f (rows ! idx)) (mset (argsort ks))"
    by simp
  also have "\<dots> = mset (map (\<lambda>idx. f (rows ! idx)) [0..<length rows])"
    by (simp add: mset_argsort assms)
  also have "map (\<lambda>idx. f (rows ! idx)) [0..<length rows] = map f (map (\<lambda>idx. rows ! idx) [0..<length rows])"
    by simp
  also have "\<dots> = map f rows" by (simp only: map_nth)
  finally show ?thesis .
qed

lemma length_concat_rows:
  "(\<forall>r \<in> set rs. length r = n) \<Longrightarrow> length (concat rs) = n * length rs"
  by (induction rs) simp_all

lemma set_COLREGs_fields:
  "TSs (set_COLREGs env) = TSs env" "length (TS_COLREGs (set_COLREGs env)) = length (TSs env)"
  "state_design (set_COLREGs env) = state_design env" "num_obs_TS (set_COLREGs env) = num_obs_TS env"
  "N_TSs_max (set_COLREGs env) = N_TSs_max env"
  "TS_in_sight (set_COLREGs env) = TS_in_sight env"
  by (simp_all add: set_COLREGs_def TS_in_sight_def fun_eq_iff)

lemma state_TSs_RecDQN:
  assumes "state_design env = ''RecDQN''" "num_obs_TS env = 6"
    and "length (filter (TS_in_sight env) (TSs env)) \<le> N_TSs_max env"
    and "length (TS_COLREGs env) = length (TSs env)"
  shows "\<exists>rows. state_TSs env =
             Inr (map Val (concat rows)
                  @ replicate (6 * (N_TSs_max env - length (filter (TS_in_sight env) (TSs env)))) NaN)
           \<and> mset rows = mset (map (\<lambda>(j, T). TS_obs env j T)
                                  (filter (\<lambda>(j, T). TS_in_sight env T) (List.enumerate 0 (TSs env))))"
proof -
  define vis where "vis = filter (\<lambda>(j, T). TS_in_sight env T) (List.enumerate 0 (TSs env))"
  define rows where "rows = map (\<lambda>(j, T). (TS_obs env j T, TS_risk env T)) vis"
  have k: "length rows = length (filter (TS_in_sight env) (TSs env))"
    by (simp add: rows_def vis_def length_filter_enumerate)
  have r: "TS_rows env 0 (TSs env) = Inr rows"
    unfolding rows_def vis_def using TS_rows_value [of 0 "TSs env" env] assms(4) by simp
  have f: "map fst rows = map (\<lambda>(j, T). TS_obs env j T) vis"
    by (simp add: rows_def case_prod_unfold)
  show ?thesis
  proof (cases "rows = []")
    case True
    then have "filter (TS_in_sight env) (TSs env) = []" using k by simp
    moreover have "vis = []" using True by (simp add: rows_def)
    ultimately show ?thesis
      by (intro exI [of _ "[]"])
         (simp add: state_TSs_def r True assms(1,2) vis_def[symmetric] mult.commute)
  next
    case False
    define sorted_rows where
      "sorted_rows = map (\<lambda>idx. fst (rows ! idx)) (rev (argsort (map snd rows)))"
    have ms: "mset sorted_rows = mset (map (\<lambda>(j, T). TS_obs env j T) vis)"
      unfolding sorted_rows_def using mset_sorted_rows [of "map snd rows" rows fst] f by simp
    have "\<forall>x \<in> set (map (\<lambda>(j, T). TS_obs env j T) vis). length x = 6"
      by (auto simp: length_TS_obs)
    then have "\<forall>x \<in># mset sorted_rows. length x = 6"
      unfolding ms by simp
    then have "\<forall>x \<in> set sorted_rows. length x = 6" by simp
    then have lc: "length (concat sorted_rows) = 6 * length sorted_rows"
      by (rule length_concat_rows)
    have ls: "length sorted_rows = length rows"
      by (simp add: sorted_rows_def argsort_props)
    have "int (6 * N_TSs_max env) - int (length (map Val (concat sorted_rows)))
            = int (6 * (N_TSs_max env - length rows))"
      using assms(3) k lc ls by (simp add: of_nat_diff algebra_simps)
    then have "state_TSs env =
        Inr (map Val (concat sorted_rows) @ replicate (6 * (N_TSs_max env - length rows)) NaN)"
      using False
      by (simp add: state_TSs_def r assms(1,2) Let_def np_pad_right_def sorted_rows_def)
    with ms show ?thesis
      unfolding k vis_def by blast
  qed
qed

lemma state_TSs_maxRisk:
  assumes "state_design env = ''maxRisk''" "num_obs_TS env = 6"
    and "length (TS_COLREGs env) = length (TSs env)"
  shows "\<exists>blk. state_TSs env = Inr blk \<and> length blk = 6
           \<and> (if filter (TS_in_sight env) (TSs env) = [] then blk = replicate 6 (Val 0)
               else \<exists>(j, T) \<in> set (List.enumerate 0 (TSs env)).
                      TS_in_sight env T \<and> blk = map Val (TS_obs env j T))"
proof -
  define vis where "vis = filter (\<lambda>(j, T). TS_in_sight env T) (List.enumerate 0 (TSs env))"
  define rows where "rows = map (\<lambda>(j, T). (TS_obs env j T, TS_risk env T)) vis"
  have k: "length rows = length (filter (TS_in_sight env) (TSs env))"
    by (simp add: rows_def vis_def length_filter_enumerate)
  have r: "TS_rows env 0 (TSs env) = Inr rows"
    unfolding rows_def vis_def using TS_rows_value [of 0 "TSs env" env] assms(3) by simp
  show ?thesis
  proof (cases "rows = []")
    case True
    then have "filter (TS_in_sight env) (TSs env) = []" using k by simp
    then show ?thesis
      by (simp add: state_TSs_def r True assms(1,2))
  next
    case False
    then have ne: "filter (TS_in_sight env) (TSs env) \<noteq> []" using k by auto
    define order where "order = rev (argsort (map snd rows))"
    have lo: "length order = length rows" "set order \<subseteq> {0..<length rows}"
      using argsort_props [of "map snd rows"] by (simp_all add: order_def)
    then have "order \<noteq> []" using False by auto
    then have "last order \<in> set order" by simp
    then have li: "last order < length rows" using lo(2) by auto
    then have "rows ! last order \<in> set rows" by simp
    then obtain j T where jT: "(j, T) \<in> set vis" "fst (rows ! last order) = TS_obs env j T"
      by (auto simp: rows_def)
    have st: "state_TSs env = Inr (map Val (fst (rows ! last order)))"
      using False \<open>order \<noteq> []\<close>
      by (simp add: state_TSs_def r assms(1) Let_def order_def[symmetric] last_map)
    have "(j, T) \<in> set (List.enumerate 0 (TSs env))" "TS_in_sight env T"
      using jT(1) by (auto simp: vis_def)
    with st jT(2) ne show ?thesis
      by (auto simp: length_TS_obs)
  qed
qed

lemma pp_TS_row_length: "length (pp_TS_row D env T) = 6"
  by (simp add: pp_TS_row_def Let_def)

lemma pp_state_TSs_conventional:
  assumes "pp_state_design penv = ''conventional''"
    and "length (pp_TSs penv) \<le> pp_N_TSs_max penv" "0 < pp_N_TSs_max penv"
  shows "\<exists>blk rows. pp_state_TSs D penv = Some (Inr blk)
           \<and> length blk = pp_N_TSs_max penv * 6
           \<and> blk = concat rows
           \<and> mset rows = mset (map (pp_TS_row D penv) (pp_TSs penv))
                          + replicate_mset (pp_N_TSs_max penv - length (pp_TSs penv))
                              [0, - 1, - 1, 0, - 1, - 1]"
proof -
  define padded where
    "padded = map (pp_TS_row D penv) (pp_TSs penv)
              @ replicate (pp_N_TSs_max penv - length (pp_TSs penv)) [0, - 1, - 1, 0, - 1, - 1 :: real]"
  define sorted_rows where "sorted_rows = sort_key (\<lambda>x. x ! 0) padded"
  have lp: "length padded = pp_N_TSs_max penv" using assms(2) by (simp add: padded_def)
  then have ls: "length sorted_rows = pp_N_TSs_max penv" by (simp add: sorted_rows_def)
  then have ne: "sorted_rows \<noteq> []" using assms(3) by auto
  have "\<forall>r \<in> set padded. length r = 6"
    by (auto simp: padded_def pp_TS_row_length)
  then have "\<forall>r \<in> set sorted_rows. length r = 6" by (simp add: sorted_rows_def)
  then have lc: "length (concat sorted_rows) = 6 * length sorted_rows"
    by (rule length_concat_rows)
  have ms: "mset sorted_rows = mset (map (pp_TS_row D penv) (pp_TSs penv))
              + replicate_mset (pp_N_TSs_max penv - length (pp_TSs penv)) [0, - 1, - 1, 0, - 1, - 1]"
    by (simp add: sorted_rows_def padded_def)
  have "pp_state_TSs D penv = Some (Inr (concat sorted_rows))"
    using assms ne by (simp add: pp_state_TSs_def Let_def sorted_rows_def padded_def)
  with lc ls ms show ?thesis by (intro exI [of _ "concat sorted_rows"] exI [of _ sorted_rows]) simp
qed

text \<open>
  Claim C6, as amended. In \<open>FossenEnv\<close> the block of the observation that describes the
  target ships is built by \<open>_set_state\<close> after \<open>_set_COLREGs\<close>. With the state design
  \<open>RecDQN\<close> and at most \<open>N_TSs_max\<close> target ships in sight, the block has exactly
  \<open>N_TSs_max * num_obs_TS\<close> entries: the rows of six features of the target ships in
  sight, in some order, followed by the sentinel \<open>NaN\<close> for every absent one. With the
  state design \<open>maxRisk\<close> the block has exactly \<open>num_obs_TS\<close> entries, whatever the
  number of target ships: six zeros when no target ship is in sight, the row of one
  target ship in sight otherwise. In the path-planning environment with the state design
  \<open>conventional\<close> and at least one slot, the block has exactly \<open>N_TSs_max * num_obs_TS\<close>
  entries: the rows of the target ships and one ghost-ship row for every absent one,
  sorted.
\<close>

theorem observation_block_fixed_length:
  assumes "state_design envR = ''RecDQN''" "num_obs_TS envR = 6"
    and "length (filter (TS_in_sight envR) (TSs envR)) \<le> N_TSs_max envR"
    and "state_design envM = ''maxRisk''" "num_obs_TS envM = 6"
    and "pp_state_design penv = ''conventional''" "pp_num_obs_TS penv = 6"
    and "length (pp_TSs penv) \<le> pp_N_TSs_max penv" "0 < pp_N_TSs_max penv"
  shows "(\<exists>blk rows. state_TSs (set_COLREGs envR) = Inr blk
            \<and> length blk = N_TSs_max envR * num_obs_TS envR
            \<and> blk = map Val (concat rows)
                    @ replicate (6 * (N_TSs_max envR - length (filter (TS_in_sight envR) (TSs envR)))) NaN
            \<and> mset rows = mset (map (\<lambda>(j, T). TS_obs (set_COLREGs envR) j T)
                                   (filter (\<lambda>(j, T). TS_in_sight envR T) (List.enumerate 0 (TSs envR)))))
       \<and> (\<exists>blk. state_TSs (set_COLREGs envM) = Inr blk
            \<and> length blk = num_obs_TS envM
            \<and> (if filter (TS_in_sight envM) (TSs envM) = [] then blk = replicate 6 (Val 0)
                else \<exists>(j, T) \<in> set (List.enumerate 0 (TSs envM)).
                       TS_in_sight envM T \<and> blk = map Val (TS_obs (set_COLREGs envM) j T)))
       \<and> (\<exists>blk rows. pp_state_TSs D penv = Some (Inr blk)
            \<and> length blk = pp_N_TSs_max penv * pp_num_obs_TS penv
            \<and> blk = concat rows
            \<and> mset rows = mset (map (pp_TS_row D penv) (pp_TSs penv))
                           + replicate_mset (pp_N_TSs_max penv - length (pp_TSs penv))
                               [0, - 1, - 1, 0, - 1, - 1])"
proof -
  let ?k = "length (filter (TS_in_sight envR) (TSs envR))"
  let ?vis = "filter (\<lambda>(j, T). TS_in_sight envR T) (List.enumerate 0 (TSs envR))"
  obtain rows where st:
    "state_TSs (set_COLREGs envR) = Inr (map Val (concat rows) @ replicate (6 * (N_TSs_max envR - ?k)) NaN)"
    and ms: "mset rows = mset (map (\<lambda>(j, T). TS_obs (set_COLREGs envR) j T) ?vis)"
    using state_TSs_RecDQN [of "set_COLREGs envR"] assms(1-3)
    by (auto simp: set_COLREGs_fields)
  have "\<forall>x \<in> set (map (\<lambda>(j, T). TS_obs (set_COLREGs envR) j T) ?vis). length x = 6"
    by (auto simp: length_TS_obs)
  then have "\<forall>x \<in># mset rows. length x = 6" unfolding ms by simp
  then have "\<forall>x \<in> set rows. length x = 6" by simp
  then have "length (concat rows) = 6 * length rows" by (rule length_concat_rows)
  moreover have "length rows = ?k"
    using mset_eq_length [OF ms] by (simp add: length_filter_enumerate)
  ultimately have len: "length (map Val (concat rows) @ replicate (6 * (N_TSs_max envR - ?k)) NaN)
      = N_TSs_max envR * num_obs_TS envR"
    using assms(2,3) by (simp add: algebra_simps)
  have 1: "\<exists>blk rows. state_TSs (set_COLREGs envR) = Inr blk
            \<and> length blk = N_TSs_max envR * num_obs_TS envR
            \<and> blk = map Val (concat rows) @ replicate (6 * (N_TSs_max envR - ?k)) NaN
            \<and> mset rows = mset (map (\<lambda>(j, T). TS_obs (set_COLREGs envR) j T) ?vis)"
    using st ms len by blast
  have 2: "\<exists>blk. state_TSs (set_COLREGs envM) = Inr blk
            \<and> length blk = num_obs_TS envM
            \<and> (if filter (TS_in_sight envM) (TSs envM) = [] then blk = replicate 6 (Val 0)
                else \<exists>(j, T) \<in> set (List.enumerate 0 (TSs envM)).
                       TS_in_sight envM T \<and> blk = map Val (TS_obs (set_COLREGs envM) j T))"
    using state_TSs_maxRisk [of "set_COLREGs envM"] assms(4,5)
    by (simp add: set_COLREGs_fields split del: if_split cong: if_cong)
  from pp_state_TSs_conventional [OF assms(6,8,9), of D] assms(7) 1 2 show ?thesis by simp
qed

lemma ex_env_design:
  "design \<in> {''maxRisk'', ''RecDQN''} \<Longrightarrow> state_design (ex_env design OS0 TSs0) = design"
  "design \<in> {''maxRisk'', ''RecDQN''} \<Longrightarrow> num_obs_TS (ex_env design OS0 TSs0) = 6"
  "design \<in> {''maxRisk'', ''RecDQN''} \<Longrightarrow> N_TSs_max (ex_env design OS0 TSs0) = 3"
  "design \<in> {''maxRisk'', ''RecDQN''} \<Longrightarrow> sight (ex_env design OS0 TSs0) = 100"
  "design \<in> {''maxRisk'', ''RecDQN''} \<Longrightarrow> min_dist_spawn_TS (ex_env design OS0 TSs0) = 20"
  "design \<in> {''maxRisk'', ''RecDQN''} \<Longrightarrow> TCPA_crit (ex_env design OS0 TSs0) = 120"
  "design \<in> {''maxRisk'', ''RecDQN''} \<Longrightarrow> cnt_approach (ex_env design OS0 TSs0) = ''tau''"
  "design \<in> {''maxRisk'', ''RecDQN''} \<Longrightarrow> env_delta_t (ex_env design OS0 TSs0) = 0.5"
  by (auto simp: ex_env_def env_after_reset_def FossenEnv_init_def FossenEnv_config.defs FossenEnv.defs)

lemma ex_in_sight:
  "design \<in> {''maxRisk'', ''RecDQN''} \<Longrightarrow>
     TS_in_sight (ex_env design (ex_ship 20 100 0 1) Ts) (ex_ship 60 100 pi 1)"
  by (simp add: TS_in_sight_def ex_env_fields ex_env_design ex_ship_fields ED_same_E)

theorem observation_block_fixed_length_witness:
  "state_design (ex_env ''RecDQN'' (ex_ship 20 100 0 1) [ex_ship 60 100 pi 1]) = ''RecDQN''
   \<and> num_obs_TS (ex_env ''RecDQN'' (ex_ship 20 100 0 1) [ex_ship 60 100 pi 1]) = 6
   \<and> length (filter (TS_in_sight (ex_env ''RecDQN'' (ex_ship 20 100 0 1) [ex_ship 60 100 pi 1]))
               (TSs (ex_env ''RecDQN'' (ex_ship 20 100 0 1) [ex_ship 60 100 pi 1]))) = 1
   \<and> N_TSs_max (ex_env ''RecDQN'' (ex_ship 20 100 0 1) [ex_ship 60 100 pi 1]) = 3
   \<and> state_design (ex_env ''maxRisk'' (ex_ship 20 100 0 1) [ex_ship 60 100 pi 1]) = ''maxRisk''
   \<and> num_obs_TS (ex_env ''maxRisk'' (ex_ship 20 100 0 1) [ex_ship 60 100 pi 1]) = 6
   \<and> pp_state_design ex_pp_env = ''conventional'' \<and> pp_num_obs_TS ex_pp_env = 6
   \<and> length (pp_TSs ex_pp_env) \<le> pp_N_TSs_max ex_pp_env \<and> 0 < pp_N_TSs_max ex_pp_env
   \<and> (\<exists>row. state_TSs (set_COLREGs (ex_env ''RecDQN'' (ex_ship 20 100 0 1) [ex_ship 60 100 pi 1]))
               = Inr (map Val row @ replicate 12 NaN)
          \<and> length row = 6)
   \<and> (\<exists>blk. state_TSs (set_COLREGs (ex_env ''maxRisk'' (ex_ship 20 100 0 1) [ex_ship 60 100 pi 1]))
               = Inr blk
          \<and> length blk = 6)
   \<and> (\<exists>blk. pp_state_TSs (\<lambda>os ts. 0) ex_pp_env = Some (Inr blk) \<and> length blk = 12)"
proof -
  let ?R = "ex_env ''RecDQN'' (ex_ship 20 100 0 1) [ex_ship 60 100 pi 1]"
  let ?M = "ex_env ''maxRisk'' (ex_ship 20 100 0 1) [ex_ship 60 100 pi 1]"
  have v: "filter (TS_in_sight ?R) (TSs ?R) = [ex_ship 60 100 pi 1]"
    by (simp add: ex_env_fields ex_in_sight)
  have h: "state_design ?R = ''RecDQN''" "num_obs_TS ?R = 6"
    "length (filter (TS_in_sight ?R) (TSs ?R)) \<le> N_TSs_max ?R"
    by (simp_all add: v ex_env_design)
  have m: "state_design ?M = ''maxRisk''" "num_obs_TS ?M = 6"
    by (simp_all add: ex_env_design)
  have g: "pp_state_design ex_pp_env = ''conventional''" "pp_num_obs_TS ex_pp_env = 6"
    "length (pp_TSs ex_pp_env) \<le> pp_N_TSs_max ex_pp_env" "0 < pp_N_TSs_max ex_pp_env"
    by (simp_all add: ex_pp_env_def)
  have n: "N_TSs_max ?R = 3" "pp_N_TSs_max ex_pp_env = 2"
    by (simp_all add: ex_env_design ex_pp_env_def)
  note t = observation_block_fixed_length [OF h m g, of "\<lambda>os ts. 0"]
  from conjunct1 [OF t] obtain rows where
    st: "state_TSs (set_COLREGs ?R) = Inr (map Val (concat rows) @ replicate (6 * (3 - 1)) NaN)"
    and ms: "mset rows = mset (map (\<lambda>(j, T). TS_obs (set_COLREGs ?R) j T)
                                 (filter (\<lambda>(j, T). TS_in_sight ?R T) (List.enumerate 0 (TSs ?R))))"
    unfolding v n by auto
  have "mset rows = {#TS_obs (set_COLREGs ?R) 0 (ex_ship 60 100 pi 1)#}"
    using ms by (simp add: ex_env_fields ex_in_sight)
  then have "rows = [TS_obs (set_COLREGs ?R) 0 (ex_ship 60 100 pi 1)]"
    by (simp add: mset_single_iff_right)
  then have "state_TSs (set_COLREGs ?R)
      = Inr (map Val (TS_obs (set_COLREGs ?R) 0 (ex_ship 60 100 pi 1)) @ replicate 12 NaN)"
    using st by simp
  then have 1: "\<exists>row. state_TSs (set_COLREGs ?R) = Inr (map Val row @ replicate 12 NaN) \<and> length row = 6"
    using length_TS_obs by blast
  from conjunct1 [OF conjunct2 [OF t]] m have 2:
    "\<exists>blk. state_TSs (set_COLREGs ?M) = Inr blk \<and> length blk = 6" by auto
  from conjunct2 [OF conjunct2 [OF t]] g n have 3:
    "\<exists>blk. pp_state_TSs (\<lambda>os ts. 0) ex_pp_env = Some (Inr blk) \<and> length blk = 12"
    by (simp del: split_paired_Ex) blast
  from h(1,2) v n(1) m g 1 2 3 show ?thesis by simp
qed

text \<open>
  The claim as stated fails for the state design \<open>maxRisk\<close>: with three slots and no
  target ship the block has 6 entries (zeros), not 18. In the path-planning environment
  it fails for the state design \<open>recursive\<close>, for which \<open>_set_state\<close> raises
  \<open>NotImplementedError\<close> and builds no block.
\<close>

theorem observation_block_fixed_length_counterexample:
  "state_TSs (set_COLREGs (ex_env ''maxRisk'' (ex_ship 20 100 0 1) []))
     = Inr [Val 0, Val 0, Val 0, Val 0, Val 0, Val 0]
   \<and> N_TSs_max (ex_env ''maxRisk'' (ex_ship 20 100 0 1) []) = 3
   \<and> num_obs_TS (ex_env ''maxRisk'' (ex_ship 20 100 0 1) []) = 6
   \<and> length (TSs (ex_env ''maxRisk'' (ex_ship 20 100 0 1) [])) = 0
   \<and> pp_state_TSs (\<lambda>os ts. 0) (ex_pp_env\<lparr>pp_state_design := ''recursive''\<rparr>)
       = Some (Inl NotImplementedError)"
  by (simp add: state_TSs_def set_COLREGs_fields ex_env_fields ex_env_design numeral_eq_Suc
      pp_state_TSs_def)

lemma far_enough_iff:
  "TSs env \<noteq> [] \<Longrightarrow>
   far_enough env TSv \<longleftrightarrow>
     (\<forall>T \<in> set (TSs env). min_dist_spawn_TS env \<le> ED (pos_N TSv) (pos_E TSv) (pos_N T) (pos_E T) True)"
  by (simp add: far_enough_def min_list_Min)

lemma get_TS_loop_separated:
  "get_TS_loop X env ds = Some (Inr (TSv, ds')) \<Longrightarrow> TSs env \<noteq> [] \<Longrightarrow> far_enough env TSv"
  by (induction ds) (auto split: sum.splits if_splits)

lemma get_TS_separated:
  assumes "get_TS X env ds = Some (Inr (TSv, ds'))" "TSs env \<noteq> []"
  shows "\<forall>T \<in> set (TSs env). min_dist_spawn_TS env \<le> ED (pos_N TSv) (pos_E TSv) (pos_N T) (pos_E T) True"
proof -
  from assms(1) have "get_TS_loop X env ds = Some (Inr (TSv, ds'))"
    by (simp add: get_TS_def split: if_splits)
  from get_TS_loop_separated [OF this assms(2)] show ?thesis
    by (simp add: far_enough_iff [OF assms(2)])
qed

lemma ED_sym: "ED N0 E0 N1 E1 b = ED N1 E1 N0 E0 b"
  by (simp add: ED_def power2_commute)

lemma reset_TSs_separated:
  assumes "reset_TSs X env n ds = Some (Inr (env', ds'))"
    and "sorted_wrt (\<lambda>T T'. min_dist_spawn_TS env \<le> ED (pos_N T) (pos_E T) (pos_N T') (pos_E T') True) (TSs env)"
  shows "sorted_wrt (\<lambda>T T'. min_dist_spawn_TS env \<le> ED (pos_N T) (pos_E T) (pos_N T') (pos_E T') True) (TSs env')
         \<and> length (TSs env') = length (TSs env) + n"
  using assms
proof (induction n arbitrary: env ds)
  case 0
  then show ?case by simp
next
  case (Suc n)
  from Suc.prems(1) obtain TSv ds1 where
    g: "get_TS X env ds = Some (Inr (TSv, ds1))"
    and r: "reset_TSs X (env\<lparr>TSs := TSs env @ [TSv]\<rparr>) n ds1 = Some (Inr (env', ds'))"
    by (auto split: option.splits sum.splits)
  have sep: "\<forall>T \<in> set (TSs env). min_dist_spawn_TS env \<le> ED (pos_N TSv) (pos_E TSv) (pos_N T) (pos_E T) True"
  proof (cases "TSs env = []")
    case True
    then show ?thesis by simp
  next
    case False
    from get_TS_separated [OF g False] show ?thesis .
  qed
  have "sorted_wrt (\<lambda>T T'. min_dist_spawn_TS env \<le> ED (pos_N T) (pos_E T) (pos_N T') (pos_E T') True)
          (TSs env @ [TSv])"
    using Suc.prems(2) sep by (auto simp: sorted_wrt_append ED_sym [of "pos_N TSv"])
  with Suc.IH [OF r] show ?case by simp
qed

lemma pos_eta_update:
  "pos_N (s\<lparr>eta := (a, b, c)\<rparr>) = a" "pos_E (s\<lparr>eta := (a, b, c)\<rparr>) = b"
  "heading (s\<lparr>eta := (a, b, c)\<rparr>) = c"
  by (simp_all add: pos_N_def pos_E_def heading_def)

lemma candidate_TS_ex:
  "\<exists>T. candidate_TS ex_CS2 (ex_env ''RecDQN'' (ex_ship 20 100 0 1) Ts) (ex_draw w) = Inr T
       \<and> pos_N T = 80 - 60 * w \<and> pos_E T = 100"
proof -
  let ?env = "ex_env ''RecDQN'' (ex_ship 20 100 0 1) Ts"
  have s: "\<exists>T0. sample_TS ex_CS2 ?env (ex_draw w) = Inr T0"
    by (simp add: sample_TS_def Let_def ex_env_design ex_CS2_def set_nu0_def)
  then obtain T0 where T0: "sample_TS ex_CS2 ?env (ex_draw w) = Inr T0" by blast
  have chi: "CS2_get_course (ex_ship 20 100 0 1) = 0"
    by (simp add: CS2_get_course_def ex_ship_fields polar_from_xy_def py_atan2_def)
  have V: "CS2_get_V (ex_ship 20 100 0 1) = 1"
    by (simp add: CS2_get_V_def ex_ship_fields)
  have C: "sample_C_TS_s (d_COLREG_s (ex_draw w)) (w_C_TS_s (ex_draw w)) = Inr 0"
    by (simp add: sample_C_TS_s_def ex_draw_def np_uniform_def dtr_def)
  have d: "w_t_hit (ex_draw w) = 0" "w_VTS (ex_draw w) = w" "d_COLREG_s (ex_draw w) = 5"
    by (simp_all add: ex_draw_def)
  show ?thesis
    unfolding candidate_TS_def Let_def T0 C err_bind_simps
    by (simp add: ex_env_fields ex_env_design ex_ship_fields chi V d
        bng_abs_north project_vector_def xy_from_polar_def polar_from_xy_def np_uniform_def
        pos_eta_update)
qed

lemma ex_ship_off_map:
  "CS2_is_off_map (ex_ship N E psi u) \<longleftrightarrow> N \<le> 0 \<or> 200 \<le> N \<or> E \<le> 0 \<or> 200 \<le> E"
  by (simp add: CS2_is_off_map_def is_off_map_def ex_ship_def)

text \<open>
  Claim C7. A vessel that \<open>_get_TS\<close> returns is at least \<open>min_dist_spawn_TS\<close> away from
  every vessel of \<open>self.TSs\<close> (\<open>get_TS_separated\<close>), and the loop of \<open>reset\<close> therefore
  places the initial vessels pairwise that far apart (\<open>reset_TSs_separated\<close>). The
  respawn step of \<open>step\<close> does not: when two target ships have left the map in the same
  tick, both replacements are generated against the old list, and the two new vessels can
  be placed 15 m from each other where the minimum separation is 20 m.
\<close>

theorem step_respawn_places_two_targets_too_close:
  "\<exists>T1 T2.
     step_respawn ex_CS2
       (ex_env ''RecDQN'' (ex_ship 20 100 0 1) [ex_ship 250 100 0 1, ex_ship (- 10) 100 0 1])
       [ex_draw (1 / 2), ex_draw (1 / 4)]
     = Some (Inr ((ex_env ''RecDQN'' (ex_ship 20 100 0 1) [ex_ship 250 100 0 1, ex_ship (- 10) 100 0 1])
                    \<lparr>TSs := [T1, T2], respawn_flags := [True, True]\<rparr>, []))
     \<and> ED (pos_N T1) (pos_E T1) (pos_N T2) (pos_E T2) True = 15
     \<and> min_dist_spawn_TS
         (ex_env ''RecDQN'' (ex_ship 20 100 0 1) [ex_ship 250 100 0 1, ex_ship (- 10) 100 0 1]) = 20"
proof -
  let ?Ts = "[ex_ship 250 100 0 1, ex_ship (- 10) 100 0 1]"
  let ?env = "ex_env ''RecDQN'' (ex_ship 20 100 0 1) ?Ts"
  obtain T1 where T1: "candidate_TS ex_CS2 ?env (ex_draw (1 / 2)) = Inr T1"
    and p1: "pos_N T1 = 50" "pos_E T1 = 100"
    using candidate_TS_ex [of ?Ts "1 / 2"] by auto
  obtain T2 where T2: "candidate_TS ex_CS2 ?env (ex_draw (1 / 4)) = Inr T2"
    and p2: "pos_N T2 = 65" "pos_E T2 = 100"
    using candidate_TS_ex [of ?Ts "1 / 4"] by auto
  have ne: "TSs ?env \<noteq> []" by (simp add: ex_env_fields)
  have f1: "far_enough ?env T1"
    unfolding far_enough_iff [OF ne]
    by (simp add: ex_env_fields ex_env_design ex_ship_fields p1 ED_same_E)
  have f2: "far_enough ?env T2"
    unfolding far_enough_iff [OF ne]
    by (simp add: ex_env_fields ex_env_design ex_ship_fields p2 ED_same_E)
  have g1: "get_TS ex_CS2 ?env [ex_draw (1 / 2), ex_draw (1 / 4)] = Some (Inr (T1, [ex_draw (1 / 4)]))"
    by (simp add: get_TS_def ex_env_design T1 f1)
  have g2: "get_TS ex_CS2 ?env [ex_draw (1 / 4)] = Some (Inr (T2, []))"
    by (simp add: get_TS_def ex_env_design T2 f2)
  have far: "ED (pos_N (OS ?env)) (pos_E (OS ?env)) (goal_N ?env) (goal_E ?env) True > stop_spawn_dist ?env"
    by (simp add: ex_env_fields ex_ship_fields ED_same_E)
  have h1: "handle_respawn ex_CS2 ?env [ex_draw (1 / 2), ex_draw (1 / 4)] (ex_ship 250 100 0 1)
              True False False = Some (Inr ((T1, True), [ex_draw (1 / 4)]))"
    using far by (simp add: handle_respawn_def Let_def g1 ex_ship_off_map)
  have h2: "handle_respawn ex_CS2 ?env [ex_draw (1 / 4)] (ex_ship (- 10) 100 0 1)
              True False False = Some (Inr ((T2, True), []))"
    using far by (simp add: handle_respawn_def Let_def g2 ex_ship_off_map)
  have r: "respawn_each ex_CS2 ?env [ex_draw (1 / 2), ex_draw (1 / 4)] ?Ts
             = Some (Inr ([(T1, True), (T2, True)], []))"
    by (simp add: h1 h2)
  have st: "step_respawn ex_CS2 ?env [ex_draw (1 / 2), ex_draw (1 / 4)]
              = Some (Inr (?env\<lparr>TSs := [T1, T2], respawn_flags := [True, True]\<rparr>, []))"
    using r by (simp add: step_respawn_def ex_env_fields)
  have d: "ED (pos_N T1) (pos_E T1) (pos_N T2) (pos_E T2) True = 15"
    by (simp add: p1 p2 ED_same_E)
  have m: "min_dist_spawn_TS ?env = 20" by (simp add: ex_env_design)
  from st d m show ?thesis by blast
qed

end
